theory Spec2Isabelle
  imports Complex_Main
begin

section \<open>Data model\<close>

text \<open>
  A landmark frame is a numpy array of shape \<open>(n, 3)\<close>: a list of points \<open>(x, y, z)\<close>.
  A frame of the sequence is either present or the missing marker \<open>None\<close>.
  Python floats are modelled as exact reals, Python ints as \<open>int\<close>.
\<close>

type_synonym point = "real \<times> real \<times> real"
type_synonym frame = "point list"
type_synonym landmarks = "frame option list"

datatype py_error = IndexError | ValueError | TypeError

section \<open>Swing detector: segmentation state machine\<close>

text \<open>The four constructor arguments of \<open>SwingDetector\<close>.\<close>

record detector =
  motion_threshold :: real
  stillness_frames :: int
  min_swing_duration :: int
  max_swing_duration :: int

text \<open>The defaults of \<open>config.SWING_DETECTION\<close>.\<close>

definition default_detector :: detector where
  "default_detector =
     \<lparr>motion_threshold = 5, stillness_frames = 15,
      min_swing_duration = 30, max_swing_duration = 120\<rparr>"

type_synonym segment = "int \<times> int \<times> string"

text \<open>The local variables of the loop of \<open>detect_swing_phases\<close>.\<close>

record scan_state =
  swings :: "segment list"
  in_swing :: bool
  swing_start :: int
  stillness_counter :: int

definition init_state :: scan_state where
  "init_state = \<lparr>swings = [], in_swing = False, swing_start = 0, stillness_counter = 0\<rparr>"

text \<open>One iteration of the loop body, at index \<open>i\<close> with value \<open>energy\<close>.\<close>

definition scan_step :: "detector \<Rightarrow> int \<Rightarrow> real \<Rightarrow> scan_state \<Rightarrow> scan_state" where
  "scan_step d i energy s =
     (if \<not> in_swing s then
        (if energy > motion_threshold d
         then s\<lparr>in_swing := True, swing_start := i, stillness_counter := 0\<rparr>
         else s)
      else
        (if energy < motion_threshold d then
           (let c = stillness_counter s + 1 in
            if c \<ge> stillness_frames d then
              (let swing_end = i - stillness_frames d;
                   swing_duration = swing_end - swing_start s
               in s\<lparr>swings :=
                      (if min_swing_duration d \<le> swing_duration
                          \<and> swing_duration \<le> max_swing_duration d
                       then swings s @ [(swing_start s, swing_end, ''full_swing'')]
                       else swings s),
                    in_swing := False, stillness_counter := 0\<rparr>)
            else s\<lparr>stillness_counter := c\<rparr>)
         else s\<lparr>stillness_counter := 0\<rparr>))"

text \<open>The loop \<open>for i, energy in enumerate(motion_energy)\<close>, from index \<open>i\<close> on.\<close>

fun scan :: "detector \<Rightarrow> int \<Rightarrow> real list \<Rightarrow> scan_state \<Rightarrow> scan_state" where
  "scan d i [] s = s"
| "scan d i (energy # rest) s = scan d (i + 1) rest (scan_step d i energy s)"

definition final_state :: "detector \<Rightarrow> real list \<Rightarrow> scan_state" where
  "final_state d motion_energy = scan d 0 motion_energy init_state"

definition detect_swing_phases :: "detector \<Rightarrow> real list \<Rightarrow> segment list" where
  "detect_swing_phases d motion_energy = swings (final_state d motion_energy)"

section \<open>Python and numpy helpers\<close>

text \<open>Sequencing of fallible steps: the first raise ends the computation.\<close>

definition and_then :: "'e + 'a \<Rightarrow> ('a \<Rightarrow> 'e + 'b) \<Rightarrow> 'e + 'b" where
  "and_then m f = (case m of Inl e \<Rightarrow> Inl e | Inr x \<Rightarrow> f x)"

fun collect :: "('a \<Rightarrow> py_error + 'b) \<Rightarrow> 'a list \<Rightarrow> py_error + 'b list" where
  "collect f [] = Inr []"
| "collect f (x # xs) =
     and_then (f x) (\<lambda>y. and_then (collect f xs) (\<lambda>ys. Inr (y # ys)))"

text \<open>\<open>xs[i]\<close> on a Python list: a negative index counts from the end, an index
  outside the list raises \<open>IndexError\<close>.\<close>

definition py_get :: "'a list \<Rightarrow> int \<Rightarrow> py_error + 'a" where
  "py_get xs i =
     (if 0 \<le> i \<and> i < int (length xs) then Inr (xs ! nat i)
      else if i < 0 \<and> 0 \<le> i + int (length xs) then Inr (xs ! nat (i + int (length xs)))
      else Inl IndexError)"

text \<open>\<open>xs[start:stop]\<close>: both bounds are clipped to the list, never raising.\<close>

definition slice_bound :: "int \<Rightarrow> int \<Rightarrow> int" where
  "slice_bound n i = (if i < 0 then max (i + n) 0 else min i n)"

definition py_slice :: "'a list \<Rightarrow> int \<Rightarrow> int \<Rightarrow> 'a list" where
  "py_slice xs start stop =
     (let lo = slice_bound (int (length xs)) start;
          hi = slice_bound (int (length xs)) stop
      in take (nat (hi - lo)) (drop (nat lo) xs))"

text \<open>\<open>range(a, b)\<close>.\<close>

definition py_range :: "int \<Rightarrow> int \<Rightarrow> int list" where
  "py_range a b = [a..b - 1]"

text \<open>\<open>d.get(key, default)\<close>.\<close>

definition dict_get :: "(string \<rightharpoonup> 'v) \<Rightarrow> string \<Rightarrow> 'v \<Rightarrow> 'v" where
  "dict_get m k dflt = (case m k of Some v \<Rightarrow> v | None \<Rightarrow> dflt)"

text \<open>Row \<open>k\<close> of a landmark array, \<open>lm[k]\<close>; its coordinates; \<open>lm[k][:2]\<close>.\<close>

definition row :: "frame \<Rightarrow> nat \<Rightarrow> py_error + point" where
  "row lm k = (if k < length lm then Inr (lm ! k) else Inl IndexError)"

definition px :: "point \<Rightarrow> real" where "px p = fst p"
definition py :: "point \<Rightarrow> real" where "py p = fst (snd p)"
definition pz :: "point \<Rightarrow> real" where "pz p = snd (snd p)"

definition xy :: "point \<Rightarrow> real \<times> real" where
  "xy p = (px p, py p)"

definition vsub2 :: "real \<times> real \<Rightarrow> real \<times> real \<Rightarrow> real \<times> real" where
  "vsub2 a b = (fst a - fst b, snd a - snd b)"

definition dot2 :: "real \<times> real \<Rightarrow> real \<times> real \<Rightarrow> real" where
  "dot2 a b = fst a * fst b + snd a * snd b"

definition norm2 :: "real \<times> real \<Rightarrow> real" where
  "norm2 a = sqrt ((fst a)\<^sup>2 + (snd a)\<^sup>2)"

definition vdiv2 :: "real \<times> real \<Rightarrow> real \<Rightarrow> real \<times> real" where
  "vdiv2 a c = (fst a / c, snd a / c)"

definition row_sub :: "point \<Rightarrow> point \<Rightarrow> point" where
  "row_sub p q = (px p - px q, py p - py q, pz p - pz q)"

definition norm3 :: "point \<Rightarrow> real" where
  "norm3 p = sqrt ((px p)\<^sup>2 + (py p)\<^sup>2 + (pz p)\<^sup>2)"

text \<open>\<open>a - b\<close> on two arrays of shapes \<open>(m, 3)\<close> and \<open>(n, 3)\<close>: the first axes must
  agree, or one of them is 1 and is broadcast; otherwise numpy raises \<open>ValueError\<close>.\<close>

definition np_sub :: "frame \<Rightarrow> frame \<Rightarrow> py_error + frame" where
  "np_sub a b =
     (if length a = length b then Inr (map2 row_sub a b)
      else if length a = 1 then Inr (map (\<lambda>q. row_sub (a ! 0) q) b)
      else if length b = 1 then Inr (map (\<lambda>p. row_sub p (b ! 0)) a)
      else Inl ValueError)"

text \<open>\<open>xs[idxs]\<close> with a list of indices: \<open>IndexError\<close> when one is out of bounds.\<close>

definition np_take :: "real list \<Rightarrow> nat list \<Rightarrow> py_error + real list" where
  "np_take xs idxs =
     collect (\<lambda>k. if k < length xs then Inr (xs ! k) else Inl IndexError) idxs"

definition np_mean :: "real list \<Rightarrow> real" where
  "np_mean xs = sum_list xs / real (length xs)"

definition np_diff :: "real list \<Rightarrow> real list" where
  "np_diff xs = map2 (\<lambda>a b. b - a) xs (tl xs)"

text \<open>\<open>np.clip(x, lo, hi)\<close>.\<close>

definition clip :: "real \<Rightarrow> real \<Rightarrow> real \<Rightarrow> real" where
  "clip x lo hi = min hi (max lo x)"

definition degrees :: "real \<Rightarrow> real" where
  "degrees r = r * 180 / pi"

text \<open>\<open>np.argmin\<close>: the first index of the least value; \<open>ValueError\<close> on an empty array.\<close>

fun argmin_from :: "real \<Rightarrow> nat \<Rightarrow> nat \<Rightarrow> real list \<Rightarrow> nat" where
  "argmin_from best bi i [] = bi"
| "argmin_from best bi i (x # xs) =
     (if x < best then argmin_from x i (i + 1) xs else argmin_from best bi (i + 1) xs)"

definition argmin :: "real list \<Rightarrow> py_error + nat" where
  "argmin xs = (case xs of [] \<Rightarrow> Inl ValueError | x # rest \<Rightarrow> Inr (argmin_from x 0 1 rest))"

section \<open>Swing detector: motion energy\<close>

definition velocity_smoothing_window :: nat where
  "velocity_smoothing_window = 5"

definition key_joints :: "nat list" where
  "key_joints = [11, 12, 13, 14, 15, 16, 23, 24]"

text \<open>
  Modelled from the spec: the fixed-window polynomial smoothing filter of section 4.1
  (window 5, order 2) is \<open>scipy.signal.savgol_filter(x, 5, 2)\<close>, a library function
  whose code is not part of this repository. It is the Savitzky-Golay filter in its default mode
  \<open>interp\<close>, in exact arithmetic: every interior sample is replaced by the value at the
  window centre of the least-squares parabola through the five samples around it, and the
  first and last two samples by the values of the parabola fitted to the first and last
  five samples. \<open>parabola_at k w\<close> is the value at position \<open>k\<close> of the parabola fitted to
  the five samples \<open>w\<close>. Fewer than five samples raise \<open>ValueError\<close>.
\<close>

definition savgol_weights :: "nat \<Rightarrow> real list" where
  "savgol_weights k =
     [[31, 9, -3, -5, 3], [9, 13, 12, 6, -5], [-3, 12, 17, 12, -3],
      [-5, 6, 12, 13, 9], [3, -5, -3, 9, 31]] ! k"

definition parabola_at :: "nat \<Rightarrow> real list \<Rightarrow> real" where
  "parabola_at k w = sum_list (map2 (*) (savgol_weights k) w) / 35"

fun savgol_interior :: "real list \<Rightarrow> real list" where
  "savgol_interior (a # b # c # d # e # rest) =
     parabola_at 2 [a, b, c, d, e] # savgol_interior (b # c # d # e # rest)"
| "savgol_interior w = []"

definition savgol_filter_5_2 :: "real list \<Rightarrow> py_error + real list" where
  "savgol_filter_5_2 x =
     (if length x < 5 then Inl ValueError
      else
        (let first5 = take 5 x; last5 = drop (length x - 5) x
         in Inr ([parabola_at 0 first5, parabola_at 1 first5]
                 @ savgol_interior x
                 @ [parabola_at 3 last5, parabola_at 4 last5])))"

text \<open>The body of the loop of \<open>calculate_motion_energy\<close> for one frame and its
  predecessor: the value stored in \<open>motion_energy[i]\<close> (0 when either is missing).\<close>

definition frame_energy :: "frame option \<Rightarrow> frame option \<Rightarrow> py_error + real" where
  "frame_energy cur prev =
     (case (cur, prev) of
        (Some c, Some p) \<Rightarrow>
          and_then (np_sub c p) (\<lambda>diff.
          and_then (np_take (map norm3 diff) key_joints) (\<lambda>displacement.
            Inr (np_mean displacement * 100)))
      | _ \<Rightarrow> Inr 0)"

text \<open>The loop \<open>for i in range(1, len(landmarks_sequence))\<close>, given frame \<open>i - 1\<close>.\<close>

fun energy_loop :: "frame option \<Rightarrow> landmarks \<Rightarrow> py_error + real list" where
  "energy_loop prev [] = Inr []"
| "energy_loop prev (cur # rest) =
     and_then (frame_energy cur prev) (\<lambda>e.
     and_then (energy_loop cur rest) (\<lambda>es. Inr (e # es)))"

definition calculate_motion_energy :: "landmarks \<Rightarrow> py_error + real list" where
  "calculate_motion_energy landmarks_sequence =
     (if length landmarks_sequence < 2
      then Inr (replicate (length landmarks_sequence) 0)
      else
        and_then (energy_loop (hd landmarks_sequence) (tl landmarks_sequence)) (\<lambda>es.
          let motion_energy = 0 # es
          in if length motion_energy > velocity_smoothing_window
             then savgol_filter_5_2 motion_energy
             else Inr motion_energy))"

section \<open>Swing detector: key positions\<close>

text \<open>The wrist height appended for one frame of the segment. In
  \<open>identify_swing_positions\<close>, \<open>int(len(wrist_heights) * 0.8)\<close> truncates a non-negative
  product: it is its floor.\<close>

definition wrist_height :: "frame option \<Rightarrow> real" where
  "wrist_height lm =
     (case lm of
        Some f \<Rightarrow> (if length f > 16 then py (f ! 16) else 0)
      | None \<Rightarrow> 0)"

definition identify_swing_positions ::
  "landmarks \<Rightarrow> int \<times> int \<Rightarrow> py_error + (string \<rightharpoonup> int)" where
  "identify_swing_positions landmarks_sequence swing_range =
     (case swing_range of (start, end_frame) \<Rightarrow>
        (let swing_landmarks = py_slice landmarks_sequence start (end_frame + 1)
         in if length swing_landmarks = 0 then Inr Map.empty
            else
              (let wrist_heights = map wrist_height swing_landmarks;
                   address_idx = 0;
                   backswing_end = length wrist_heights div 2
               in and_then
                    (if backswing_end > 0 then argmin (take backswing_end wrist_heights)
                     else Inr 0)
                    (\<lambda>top_idx.
                       let impact_idx = \<lfloor>real (length wrist_heights) * 0.8\<rfloor>;
                           finish_idx = int (length wrist_heights) - 1
                       in Inr [''address'' \<mapsto> start + address_idx,
                               ''top'' \<mapsto> start + int top_idx,
                               ''impact'' \<mapsto> start + impact_idx,
                               ''finish'' \<mapsto> start + finish_idx]))))"

section \<open>Biomechanical analyzer\<close>

text \<open>The entries of \<open>config.KEYPOINTS\<close> and \<open>config.BIOMECHANICS\<close> the analyzer reads.\<close>

definition left_shoulder :: nat where "left_shoulder = 11"
definition right_shoulder :: nat where "right_shoulder = 12"
definition right_wrist :: nat where "right_wrist = 16"
definition left_hip :: nat where "left_hip = 23"
definition right_hip :: nat where "right_hip = 24"
definition left_ankle :: nat where "left_ankle = 27"
definition right_ankle :: nat where "right_ankle = 28"

definition swing_plane_tolerance :: real where "swing_plane_tolerance = 15"
definition ideal_hip_rotation :: real where "ideal_hip_rotation = 45"
definition ideal_shoulder_rotation :: real where "ideal_shoulder_rotation = 90"
definition rotation_tolerance :: real where "rotation_tolerance = 10"
definition weight_shift_threshold :: real where "weight_shift_threshold = 0.15"

text \<open>A metric dictionary maps a metric name to a number or to a per-frame series.
  Arithmetic or comparison on a series entry raises \<open>TypeError\<close>.\<close>

datatype metric = Num real | Series "real list"

type_synonym metrics = "string \<rightharpoonup> metric"

definition get_num :: "metrics \<Rightarrow> string \<Rightarrow> real \<Rightarrow> py_error + real" where
  "get_num m k dflt =
     (case m k of
        None \<Rightarrow> Inr dflt
      | Some (Num v) \<Rightarrow> Inr v
      | Some (Series vs) \<Rightarrow> Inl TypeError)"

definition calculate_rotation_angle :: "real \<times> real \<Rightarrow> real \<times> real \<Rightarrow> real" where
  "calculate_rotation_angle ref_vector current_vector =
     (let ref_norm = vdiv2 ref_vector (norm2 ref_vector + 0.000001);
          curr_norm = vdiv2 current_vector (norm2 current_vector + 0.000001);
          dot_product = clip (dot2 ref_norm curr_norm) (-1) 1;
          angle = degrees (arccos dot_product);
          cross = fst ref_norm * snd curr_norm - snd ref_norm * fst curr_norm
      in if cross < 0 then - angle else angle)"

text \<open>The loop body of \<open>calculate_rotation_metrics\<close> for one frame: the pair appended to
  \<open>hip_rotations\<close> and \<open>shoulder_rotations\<close>.\<close>

definition frame_rotations ::
  "real \<times> real \<Rightarrow> real \<times> real \<Rightarrow> frame option \<Rightarrow> py_error + (real \<times> real)" where
  "frame_rotations hip_ref_vector shoulder_ref_vector f =
     (case f of
        None \<Rightarrow> Inr (0, 0)
      | Some lm \<Rightarrow>
          and_then (row lm left_hip) (\<lambda>left_hip_p.
          and_then (row lm right_hip) (\<lambda>right_hip_p.
          and_then (row lm left_shoulder) (\<lambda>left_shoulder_p.
          and_then (row lm right_shoulder) (\<lambda>right_shoulder_p.
            let hip_vector = vsub2 (xy right_hip_p) (xy left_hip_p);
                shoulder_vector = vsub2 (xy right_shoulder_p) (xy left_shoulder_p)
            in Inr (calculate_rotation_angle hip_ref_vector hip_vector,
                    calculate_rotation_angle shoulder_ref_vector shoulder_vector))))))"

definition rotation_defaults :: metrics where
  "rotation_defaults =
     [''hip_rotation'' \<mapsto> Series [], ''shoulder_rotation'' \<mapsto> Series [],
      ''max_hip_rotation'' \<mapsto> Num 0, ''max_shoulder_rotation'' \<mapsto> Num 0,
      ''rotation_sequence_score'' \<mapsto> Num 0]"

definition rotation_results :: "metrics \<Rightarrow> (real \<times> real) list \<Rightarrow> metrics" where
  "rotation_results results rots =
     (let hip_rotations = map fst rots; shoulder_rotations = map snd rots
      in if hip_rotations \<noteq> [] \<and> shoulder_rotations \<noteq> [] then
           (let max_hip = Max (set (map abs hip_rotations));
                max_shoulder = Max (set (map abs shoulder_rotations))
            in results
                 (''hip_rotation'' \<mapsto> Series hip_rotations,
                  ''shoulder_rotation'' \<mapsto> Series shoulder_rotations,
                  ''max_hip_rotation'' \<mapsto> Num max_hip,
                  ''max_shoulder_rotation'' \<mapsto> Num max_shoulder,
                  ''rotation_sequence_score'' \<mapsto>
                     Num (if max_shoulder > max_hip
                          then max 0 (100 - \<bar>max_shoulder / (max_hip + 1) - 2\<bar> * 30)
                          else 50)))
         else results)"

definition calculate_rotation_metrics ::
  "landmarks \<Rightarrow> (string \<rightharpoonup> int) \<Rightarrow> py_error + metrics" where
  "calculate_rotation_metrics landmarks_sequence key_positions =
     (let results = rotation_defaults;
          address_frame = dict_get key_positions ''address'' 0
      in if address_frame \<ge> int (length landmarks_sequence) then Inr results
         else
           and_then (py_get landmarks_sequence address_frame) (\<lambda>a.
             case a of
               None \<Rightarrow> Inr results
             | Some address_landmarks \<Rightarrow>
                 and_then (row address_landmarks left_hip) (\<lambda>left_hip_addr.
                 and_then (row address_landmarks right_hip) (\<lambda>right_hip_addr.
                 and_then (row address_landmarks left_shoulder) (\<lambda>left_shoulder_addr.
                 and_then (row address_landmarks right_shoulder) (\<lambda>right_shoulder_addr.
                   let hip_ref_vector = vsub2 (xy right_hip_addr) (xy left_hip_addr);
                       shoulder_ref_vector =
                         vsub2 (xy right_shoulder_addr) (xy left_shoulder_addr);
                       start = dict_get key_positions ''address'' 0;
                       end_frame = dict_get key_positions ''finish''
                                     (int (length landmarks_sequence) - 1)
                   in and_then
                        (collect
                           (\<lambda>i. and_then (py_get landmarks_sequence i)
                                   (frame_rotations hip_ref_vector shoulder_ref_vector))
                           (py_range start
                              (min (end_frame + 1) (int (length landmarks_sequence)))))
                        (\<lambda>rots. Inr (rotation_results results rots))))))))"

text \<open>The loop body of \<open>calculate_weight_transfer\<close> for one frame: the value appended
  to \<open>weight_ratios\<close>.\<close>

definition frame_weight_ratio :: "frame option \<Rightarrow> py_error + real" where
  "frame_weight_ratio f =
     (case f of
        None \<Rightarrow> Inr 0.5
      | Some lm \<Rightarrow>
          and_then (row lm left_hip) (\<lambda>left_hip_p.
          and_then (row lm right_hip) (\<lambda>right_hip_p.
          and_then (row lm left_ankle) (\<lambda>left_ankle_p.
          and_then (row lm right_ankle) (\<lambda>right_ankle_p.
            let hip_center_x = (px left_hip_p + px right_hip_p) / 2;
                left_foot_x = px left_ankle_p;
                right_foot_x = px right_ankle_p;
                foot_width = \<bar>right_foot_x - left_foot_x\<bar>
            in if foot_width < 0.01 then Inr 0.5
               else Inr (clip ((hip_center_x - left_foot_x) / foot_width) 0 1))))))"

definition weight_defaults :: metrics where
  "weight_defaults =
     [''weight_distribution'' \<mapsto> Series [], ''max_weight_shift'' \<mapsto> Num 0,
      ''weight_transfer_score'' \<mapsto> Num 0]"

definition weight_results :: "metrics \<Rightarrow> real list \<Rightarrow> metrics" where
  "weight_results results weight_ratios =
     (if weight_ratios \<noteq> [] then
        (let max_weight_shift = Max (set weight_ratios) - Min (set weight_ratios)
         in results
              (''weight_distribution'' \<mapsto> Series weight_ratios,
               ''max_weight_shift'' \<mapsto> Num max_weight_shift,
               ''weight_transfer_score'' \<mapsto>
                  Num (if max_weight_shift \<ge> weight_shift_threshold
                       then min 100 (max_weight_shift / weight_shift_threshold * 100)
                       else max_weight_shift / weight_shift_threshold * 100)))
      else results)"

definition calculate_weight_transfer ::
  "landmarks \<Rightarrow> (string \<rightharpoonup> int) \<Rightarrow> py_error + metrics" where
  "calculate_weight_transfer landmarks_sequence key_positions =
     (let results = weight_defaults;
          start = dict_get key_positions ''address'' 0;
          end_frame = dict_get key_positions ''finish'' (int (length landmarks_sequence) - 1)
      in and_then
           (collect (\<lambda>i. and_then (py_get landmarks_sequence i) frame_weight_ratio)
              (py_range start (min (end_frame + 1) (int (length landmarks_sequence)))))
           (\<lambda>weight_ratios. Inr (weight_results results weight_ratios)))"

definition check_early_extension ::
  "landmarks \<Rightarrow> (string \<rightharpoonup> int) \<Rightarrow> py_error + bool" where
  "check_early_extension landmarks_sequence key_positions =
     (let top_frame = dict_get key_positions ''top'' 0;
          impact_frame = dict_get key_positions ''impact''
                           (int (length landmarks_sequence) - 1)
      in if top_frame \<ge> int (length landmarks_sequence)
            \<or> impact_frame \<ge> int (length landmarks_sequence) then Inr False
         else
           and_then (py_get landmarks_sequence top_frame) (\<lambda>t.
             case t of
               None \<Rightarrow> Inr False
             | Some top_lm \<Rightarrow>
                 and_then (py_get landmarks_sequence impact_frame) (\<lambda>im.
                   case im of
                     None \<Rightarrow> Inr False
                   | Some impact_lm \<Rightarrow>
                       and_then (row top_lm left_hip) (\<lambda>tl.
                       and_then (row top_lm right_hip) (\<lambda>tr.
                       and_then (row impact_lm left_hip) (\<lambda>il.
                       and_then (row impact_lm right_hip) (\<lambda>ir.
                         let top_hip = (py tl + py tr) / 2;
                             impact_hip = (py il + py ir) / 2;
                             hip_rise = top_hip - impact_hip
                         in Inr (hip_rise > 0.05))))))))"

text \<open>The loop body of \<open>_check_over_the_top\<close> for one frame: what it appends to
  \<open>wrist_path_x\<close>.\<close>

definition wrist_offset :: "frame option \<Rightarrow> py_error + real list" where
  "wrist_offset f =
     (case f of
        None \<Rightarrow> Inr []
      | Some lm \<Rightarrow>
          if length lm > right_wrist then
            and_then (row lm right_wrist) (\<lambda>w.
            and_then (row lm right_shoulder) (\<lambda>s. Inr [px w - px s]))
          else Inr [])"

text \<open>\<open>np.mean\<close> of an empty array is \<open>nan\<close>, and \<open>nan > 0.01\<close> is false.\<close>

definition check_over_the_top ::
  "landmarks \<Rightarrow> (string \<rightharpoonup> int) \<Rightarrow> py_error + bool" where
  "check_over_the_top landmarks_sequence key_positions =
     (let top_frame = dict_get key_positions ''top'' 0;
          impact_frame = dict_get key_positions ''impact''
                           (int (length landmarks_sequence) - 1)
      in if top_frame \<ge> int (length landmarks_sequence)
            \<or> impact_frame \<ge> int (length landmarks_sequence) then Inr False
         else
           and_then
             (collect (\<lambda>i. and_then (py_get landmarks_sequence i) wrist_offset)
                (py_range top_frame
                   (min (impact_frame + 1) (int (length landmarks_sequence)))))
             (\<lambda>appended.
                let wrist_path_x = concat appended
                in if length wrist_path_x > 2 then
                     (let steps = np_diff (take (length wrist_path_x div 2) wrist_path_x)
                      in Inr (steps \<noteq> [] \<and> np_mean steps > 0.01))
                   else Inr False))"

definition detect_common_errors ::
  "landmarks \<Rightarrow> (string \<rightharpoonup> int) \<Rightarrow> metrics \<Rightarrow> metrics \<Rightarrow> py_error + string list" where
  "detect_common_errors landmarks_sequence key_positions rotation_metrics weight_metrics =
     and_then (check_early_extension landmarks_sequence key_positions) (\<lambda>early.
     and_then (check_over_the_top landmarks_sequence key_positions) (\<lambda>over.
     and_then (get_num weight_metrics ''max_weight_shift'' 0) (\<lambda>max_weight_shift.
     and_then (get_num rotation_metrics ''rotation_sequence_score'' 0) (\<lambda>sequence_score.
     and_then (get_num weight_metrics ''weight_transfer_score'' 0) (\<lambda>transfer_score.
       Inr ((if early then [''early_extension''] else [])
            @ (if over then [''over_the_top''] else [])
            @ (if max_weight_shift < weight_shift_threshold / 2
               then [''reverse_pivot''] else [])
            @ (if sequence_score < 50 then [''flat_shoulder''] else [])
            @ (if transfer_score < 60 then [''sway''] else [])))))))"

section \<open>Swing scorer\<close>

text \<open>One number per scored component: the keys of \<open>config.SCORING_WEIGHTS\<close> and of
  \<open>component_scores\<close>.\<close>

record components =
  swing_plane_consistency :: real
  rotation_quality :: real
  downswing_alignment :: real
  wrist_hinge :: real
  weight_transfer :: real
  tempo :: real

definition SCORING_WEIGHTS :: components where
  "SCORING_WEIGHTS =
     \<lparr>swing_plane_consistency = 0.25, rotation_quality = 0.20,
      downswing_alignment = 0.20, wrist_hinge = 0.15,
      weight_transfer = 0.10, tempo = 0.10\<rparr>"

text \<open>The numeric part of the dictionary returned by \<open>calculate_swing_score\<close>; the two
  lists of messages are not modelled.\<close>

record score_result =
  overall_score :: real
  component_scores :: components
  grade :: string

text \<open>\<open>round(x, 2)\<close>: to the nearest hundredth, a tie going to the even neighbour.\<close>

definition round_half_even :: "real \<Rightarrow> int" where
  "round_half_even x =
     (let f = \<lfloor>x\<rfloor>; r = x - of_int f
      in if r < 1 / 2 then f
         else if r > 1 / 2 then f + 1
         else if even f then f else f + 1)"

definition py_round2 :: "real \<Rightarrow> real" where
  "py_round2 x = of_int (round_half_even (x * 100)) / 100"

definition score_in_range :: "real \<Rightarrow> real \<Rightarrow> real \<Rightarrow> real" where
  "score_in_range v ideal tolerance =
     (let error = \<bar>v - ideal\<bar>
      in if error \<le> tolerance then 100 - (error / tolerance) * 30
         else max 0 (70 - ((error - tolerance) / tolerance) * 70))"

definition score_swing_plane :: "metrics \<Rightarrow> py_error + real" where
  "score_swing_plane m =
     (if m = Map.empty then Inr 0
      else
        and_then (get_num m ''plane_consistency'' 0) (\<lambda>consistency_score.
        and_then (get_num m ''angle_error'' 90) (\<lambda>angle_error.
          let angle_score = max 0 (100 - (angle_error / swing_plane_tolerance) * 50)
          in Inr (consistency_score * 0.6 + angle_score * 0.4))))"

definition score_rotation :: "metrics \<Rightarrow> py_error + real" where
  "score_rotation m =
     (if m = Map.empty then Inr 0
      else
        and_then (get_num m ''rotation_sequence_score'' 0) (\<lambda>sequence_score.
        and_then (get_num m ''max_shoulder_rotation'' 0) (\<lambda>max_shoulder.
        and_then (get_num m ''max_hip_rotation'' 0) (\<lambda>max_hip.
          let shoulder_score =
                score_in_range max_shoulder ideal_shoulder_rotation rotation_tolerance;
              hip_score = score_in_range max_hip ideal_hip_rotation rotation_tolerance
          in Inr (sequence_score * 0.4 + shoulder_score * 0.3 + hip_score * 0.3)))))"

definition score_downswing_alignment :: "metrics \<Rightarrow> metrics \<Rightarrow> py_error + real" where
  "score_downswing_alignment rotation_metrics weight_metrics =
     and_then (get_num rotation_metrics ''rotation_sequence_score'' 0) (\<lambda>rotation_score.
     and_then (get_num weight_metrics ''weight_transfer_score'' 0) (\<lambda>weight_score.
       Inr (rotation_score * 0.6 + weight_score * 0.4)))"

definition get_grade :: "real \<Rightarrow> string" where
  "get_grade score =
     (if score \<ge> 90 then ''A''
      else if score \<ge> 80 then ''B''
      else if score \<ge> 70 then ''C''
      else if score \<ge> 60 then ''D''
      else ''F'')"

text \<open>The weighted sum of \<open>calculate_swing_score\<close>, before rounding.\<close>

definition weighted_sum :: "components \<Rightarrow> components \<Rightarrow> real" where
  "weighted_sum w c =
     swing_plane_consistency c * swing_plane_consistency w
     + rotation_quality c * rotation_quality w
     + downswing_alignment c * downswing_alignment w
     + wrist_hinge c * wrist_hinge w
     + weight_transfer c * weight_transfer w
     + tempo c * tempo w"

definition round_components :: "components \<Rightarrow> components" where
  "round_components c =
     \<lparr>swing_plane_consistency = py_round2 (swing_plane_consistency c),
      rotation_quality = py_round2 (rotation_quality c),
      downswing_alignment = py_round2 (downswing_alignment c),
      wrist_hinge = py_round2 (wrist_hinge c),
      weight_transfer = py_round2 (weight_transfer c),
      tempo = py_round2 (tempo c)\<rparr>"

text \<open>The six component scores computed at the head of \<open>calculate_swing_score\<close>.\<close>

definition component_values ::
  "metrics \<Rightarrow> metrics \<Rightarrow> metrics \<Rightarrow> metrics \<Rightarrow> metrics \<Rightarrow> py_error + components" where
  "component_values swing_plane_metrics rotation_metrics weight_transfer_metrics
       wrist_metrics tempo_metrics =
     and_then (score_swing_plane swing_plane_metrics) (\<lambda>plane_score.
     and_then (score_rotation rotation_metrics) (\<lambda>rotation_score.
     and_then (score_downswing_alignment rotation_metrics weight_transfer_metrics)
       (\<lambda>downswing_score.
     and_then (get_num wrist_metrics ''wrist_hinge_score'' 0) (\<lambda>wrist_score.
     and_then (get_num weight_transfer_metrics ''weight_transfer_score'' 0) (\<lambda>weight_score.
     and_then (get_num tempo_metrics ''tempo_score'' 0) (\<lambda>tempo_score.
       Inr \<lparr>swing_plane_consistency = plane_score, rotation_quality = rotation_score,
            downswing_alignment = downswing_score, wrist_hinge = wrist_score,
            weight_transfer = weight_score, tempo = tempo_score\<rparr>))))))"

definition calculate_swing_score ::
  "metrics \<Rightarrow> metrics \<Rightarrow> metrics \<Rightarrow> metrics \<Rightarrow> metrics \<Rightarrow> py_error + score_result" where
  "calculate_swing_score swing_plane_metrics rotation_metrics weight_transfer_metrics
       wrist_metrics tempo_metrics =
     and_then
       (component_values swing_plane_metrics rotation_metrics weight_transfer_metrics
          wrist_metrics tempo_metrics)
       (\<lambda>c. let overall = weighted_sum SCORING_WEIGHTS c
            in Inr \<lparr>overall_score = py_round2 overall,
                    component_scores = round_components c,
                    grade = get_grade overall\<rparr>)"

section \<open>Notions used in the statements\<close>

text \<open>The first and last frame of a segment \<open>(start, end, label)\<close>.\<close>

definition seg_start :: "segment \<Rightarrow> int" where "seg_start p = fst p"
definition seg_end :: "segment \<Rightarrow> int" where "seg_end p = fst (snd p)"

text \<open>Every segment of the list lies within the configured duration window.\<close>

definition durations_ok :: "detector \<Rightarrow> segment list \<Rightarrow> bool" where
  "durations_ok d segs =
     (\<forall>p \<in> set segs.
        min_swing_duration d \<le> seg_end p - seg_start p
        \<and> seg_end p - seg_start p \<le> max_swing_duration d)"

text \<open>
  The loop invariant of \<open>detect_swing_phases\<close> before index \<open>i\<close>: every emitted segment
  is non-empty and was closed, \<open>stillness_frames\<close> frames after its end, before \<open>i\<close>;
  segments are listed in order of appearance with that gap between them; and an open
  swing started after all of them were closed.
\<close>

definition scan_inv :: "detector \<Rightarrow> int \<Rightarrow> scan_state \<Rightarrow> bool" where
  "scan_inv d i s =
     ((\<forall>p \<in> set (swings s).
         seg_start p \<le> seg_end p \<and> seg_start p < i
         \<and> seg_end p + stillness_frames d + 1 \<le> i)
      \<and> sorted_wrt (\<lambda>p q. seg_end p + stillness_frames d + 1 \<le> seg_start q) (swings s)
      \<and> (in_swing s \<longrightarrow>
            0 \<le> stillness_counter s
            \<and> swing_start s + stillness_counter s < i
            \<and> (\<forall>p \<in> set (swings s).
                  seg_start p < swing_start s
                  \<and> seg_end p + stillness_frames d + 1 \<le> swing_start s)))"

text \<open>What the code guarantees for a slice of \<open>n\<close> frames, on indices relative to
  \<open>start\<close>: the last frame of the slice has index \<open>n - 1\<close>.\<close>

definition key_positions_in_order :: "int \<Rightarrow> int \<Rightarrow> int \<Rightarrow> int \<Rightarrow> int \<Rightarrow> bool" where
  "key_positions_in_order n address_idx top_idx impact_idx finish_idx =
     (address_idx \<le> top_idx \<and> top_idx \<le> impact_idx \<and> impact_idx \<le> finish_idx
      \<and> address_idx = 0
      \<and> impact_idx = \<lfloor>real_of_int n * 0.8\<rfloor> \<and> impact_idx < n \<and> finish_idx = n - 1
      \<and> 0 \<le> top_idx \<and> real_of_int top_idx < real_of_int n / 2)"

text \<open>The statement of the specification, for a segment of length \<open>L\<close>:
  \<open>address \<le> top \<le> impact \<le> finish\<close>, with \<open>address = 0\<close>,
  \<open>impact = floor(0.8 L) < L = finish\<close> and top in \<open>[0, L/2)\<close>.\<close>

definition key_positions_as_claimed :: "int \<Rightarrow> int \<Rightarrow> int \<Rightarrow> int \<Rightarrow> int \<Rightarrow> bool" where
  "key_positions_as_claimed L address_idx top_idx impact_idx finish_idx =
     (address_idx \<le> top_idx \<and> top_idx \<le> impact_idx \<and> impact_idx \<le> finish_idx
      \<and> address_idx = 0
      \<and> impact_idx = \<lfloor>real_of_int L * 0.8\<rfloor> \<and> impact_idx < L \<and> L = finish_idx
      \<and> 0 \<le> top_idx \<and> real_of_int top_idx < real_of_int L / 2)"

text \<open>All six component scores lie in \<open>[0, 100]\<close>.\<close>

definition scores_in_range :: "components \<Rightarrow> bool" where
  "scores_in_range c =
     (0 \<le> swing_plane_consistency c \<and> swing_plane_consistency c \<le> 100
      \<and> 0 \<le> rotation_quality c \<and> rotation_quality c \<le> 100
      \<and> 0 \<le> downswing_alignment c \<and> downswing_alignment c \<le> 100
      \<and> 0 \<le> wrist_hinge c \<and> wrist_hinge c \<le> 100
      \<and> 0 \<le> weight_transfer c \<and> weight_transfer c \<le> 100
      \<and> 0 \<le> tempo c \<and> tempo c \<le> 100)"

text \<open>The vector \<open>v\<close> turned counter-clockwise by \<open>t\<close> radians, in the usual
  orientation of the plane (x to the right, y upwards).\<close>

definition rotate_ccw :: "real \<Rightarrow> real \<times> real \<Rightarrow> real \<times> real" where
  "rotate_ccw t v = (fst v * cos t - snd v * sin t, fst v * sin t + snd v * cos t)"

text \<open>A frame that \<open>_check_over_the_top\<close> uses: present and with a right-wrist row.\<close>

definition has_wrist :: "frame option \<Rightarrow> bool" where
  "has_wrist f = (case f of Some lm \<Rightarrow> length lm > right_wrist | None \<Rightarrow> False)"

text \<open>The frames of the top-to-impact window that the loop of \<open>_check_over_the_top\<close>
  visits, for a non-negative top index.\<close>

definition downswing_window :: "landmarks \<Rightarrow> (string \<rightharpoonup> int) \<Rightarrow> frame option list" where
  "downswing_window landmarks_sequence key_positions =
     map (\<lambda>i. landmarks_sequence ! nat i)
       (py_range (dict_get key_positions ''top'' 0)
          (min (dict_get key_positions ''impact'' (int (length landmarks_sequence) - 1) + 1)
             (int (length landmarks_sequence))))"

section \<open>Properties of the segmentation state machine\<close>

lemma scan_append:
  "scan d i (xs @ ys) s = scan d (i + int (length xs)) ys (scan d i xs s)"
  by (induction xs arbitrary: i s) (simp_all add: algebra_simps)

lemma final_state_snoc:
  "final_state d (xs @ [x]) = scan_step d (int (length xs)) x (final_state d xs)"
  by (simp add: final_state_def scan_append)

lemma final_state_Nil: "final_state d [] = init_state"
  by (simp add: final_state_def)

lemma durations_ok_step:
  "durations_ok d (swings s) \<Longrightarrow> durations_ok d (swings (scan_step d i e s))"
  by (auto simp: durations_ok_def scan_step_def Let_def seg_start_def seg_end_def)

lemma durations_ok_final: "durations_ok d (swings (final_state d xs))"
proof (induction xs rule: rev_induct)
  case Nil
  show ?case by (simp add: final_state_Nil init_state_def durations_ok_def)
next
  case (snoc x xs)
  then show ?case by (simp add: final_state_snoc durations_ok_step)
qed

lemma scan_inv_step:
  "scan_inv d i s \<Longrightarrow> scan_inv d (i + 1) (scan_step d i e s)"
  unfolding scan_inv_def scan_step_def Let_def
  by (auto simp: sorted_wrt_append seg_start_def seg_end_def)

lemma scan_inv_final: "scan_inv d (int (length xs)) (final_state d xs)"
proof (induction xs rule: rev_induct)
  case Nil
  show ?case by (simp add: final_state_Nil init_state_def scan_inv_def)
next
  case (snoc x xs)
  from scan_inv_step[OF snoc.IH, of x] show ?case
    by (simp add: final_state_snoc add.commute)
qed

lemma open_swing_prefix:
  "in_swing (final_state d xs) \<Longrightarrow>
     0 \<le> swing_start (final_state d xs)
     \<and> swing_start (final_state d xs) < int (length xs)
     \<and> swings (final_state d xs)
         = swings (final_state d (take (nat (swing_start (final_state d xs))) xs))"
proof (induction xs rule: rev_induct)
  case Nil
  then show ?case by (simp add: final_state_Nil init_state_def)
next
  case (snoc x xs)
  let ?f = "final_state d xs"
  show ?case
  proof (cases "in_swing ?f")
    case False
    with snoc.prems show ?thesis
      by (auto simp: final_state_snoc scan_step_def split: if_splits)
  next
    case True
    with snoc.prems snoc.IH show ?thesis
      by (auto simp: final_state_snoc scan_step_def Let_def split: if_splits)
  qed
qed


text \<open>
  Claim C5. Every segment \<open>(start, end, label)\<close> emitted by \<open>detect_swing_phases\<close>
  satisfies \<open>min_swing_duration \<le> end - start \<le> max_swing_duration\<close>. When a swing is
  closed (the stillness counter reaches \<open>stillness_frames\<close>) with a duration outside the
  window, the list of segments is left as it was and the scan returns to idle.
\<close>

theorem emitted_segments_within_duration_window:
  "(\<forall>p \<in> set (detect_swing_phases d motion_energy).
      min_swing_duration d \<le> seg_end p - seg_start p
      \<and> seg_end p - seg_start p \<le> max_swing_duration d)
   \<and> (\<forall>i energy (s::scan_state).
         in_swing s \<and> energy < motion_threshold d
         \<and> stillness_frames d \<le> stillness_counter s + 1
         \<and> \<not> (min_swing_duration d \<le> i - stillness_frames d - swing_start s
                \<and> i - stillness_frames d - swing_start s \<le> max_swing_duration d)
         \<longrightarrow> swings (scan_step d i energy s) = swings s
             \<and> \<not> in_swing (scan_step d i energy s))"
proof (intro conjI allI impI)
  from durations_ok_final[of d motion_energy]
  show "\<forall>p \<in> set (detect_swing_phases d motion_energy).
      min_swing_duration d \<le> seg_end p - seg_start p
      \<and> seg_end p - seg_start p \<le> max_swing_duration d"
    by (simp add: durations_ok_def detect_swing_phases_def)
next
  fix i energy and s :: scan_state
  assume "in_swing s \<and> energy < motion_threshold d
         \<and> stillness_frames d \<le> stillness_counter s + 1
         \<and> \<not> (min_swing_duration d \<le> i - stillness_frames d - swing_start s
                \<and> i - stillness_frames d - swing_start s \<le> max_swing_duration d)"
  then show "swings (scan_step d i energy s) = swings s"
    and "\<not> in_swing (scan_step d i energy s)"
    by (auto simp: scan_step_def Let_def)
qed

lemma small_run:
  "detect_swing_phases
     \<lparr>motion_threshold = 5, stillness_frames = 2,
      min_swing_duration = 1, max_swing_duration = 10\<rparr> [0, 6, 6, 0, 0]
   = [(1, 2, ''full_swing'')]"
  by (simp add: detect_swing_phases_def final_state_def scan_step_def init_state_def)

theorem emitted_segments_within_duration_window_witness:
  "(1, 2, ''full_swing'') \<in> set (detect_swing_phases
       \<lparr>motion_threshold = 5, stillness_frames = 2,
        min_swing_duration = 1, max_swing_duration = 10\<rparr> [0, 6, 6, 0, 0])
   \<and> (1::int) \<le> seg_end (1, 2, ''full_swing'') - seg_start (1, 2, ''full_swing'')
   \<and> seg_end (1, 2, ''full_swing'') - seg_start (1, 2, ''full_swing'') \<le> (10::int)
   \<and> swings (scan_step
        \<lparr>motion_threshold = 5, stillness_frames = 2,
         min_swing_duration = 3, max_swing_duration = 10\<rparr> 4 0
        \<lparr>swings = [], in_swing = True, swing_start = 1, stillness_counter = 1\<rparr>) = []"
proof -
  let ?d = "\<lparr>motion_threshold = 5, stillness_frames = 2,
        min_swing_duration = 1, max_swing_duration = 10\<rparr>"
  let ?d3 = "\<lparr>motion_threshold = 5, stillness_frames = 2,
        min_swing_duration = 3, max_swing_duration = 10\<rparr>"
  let ?s = "\<lparr>swings = [], in_swing = True, swing_start = 1, stillness_counter = 1\<rparr>"
  have mem: "(1, 2, ''full_swing'') \<in> set (detect_swing_phases ?d [0, 6, 6, 0, 0])"
    by (simp add: small_run)
  have a: "(1::int) \<le> seg_end (1, 2, ''full_swing'') - seg_start (1, 2, ''full_swing'')
    \<and> seg_end (1, 2, ''full_swing'') - seg_start (1, 2, ''full_swing'') \<le> (10::int)"
    using emitted_segments_within_duration_window[of ?d "[0, 6, 6, 0, 0]"] mem by fastforce
  have pre: "in_swing ?s \<and> (0::real) < motion_threshold ?d3
         \<and> stillness_frames ?d3 \<le> stillness_counter ?s + 1
         \<and> \<not> (min_swing_duration ?d3 \<le> 4 - stillness_frames ?d3 - swing_start ?s
                \<and> 4 - stillness_frames ?d3 - swing_start ?s \<le> max_swing_duration ?d3)"
    by simp
  have b: "swings (scan_step ?d3 4 0 ?s) = []"
    using emitted_segments_within_duration_window[of ?d3 "[]"] pre by fastforce
  from mem a b show ?thesis by blast
qed

text \<open>
  Claim C6. When the scan is still inside a swing at the end of the energy sequence,
  nothing is emitted for that swing: the result is the result on the sequence cut right
  before the frame where the last swing started, and every emitted segment starts, and was
  closed, before that frame.
\<close>

theorem unfinished_swing_is_dropped:
  "in_swing (final_state d motion_energy) \<Longrightarrow>
     detect_swing_phases d motion_energy
       = detect_swing_phases d
           (take (nat (swing_start (final_state d motion_energy))) motion_energy)
     \<and> swing_start (final_state d motion_energy) < int (length motion_energy)
     \<and> (\<forall>p \<in> set (detect_swing_phases d motion_energy).
           seg_start p < swing_start (final_state d motion_energy)
           \<and> seg_end p + stillness_frames d
               < swing_start (final_state d motion_energy))"
proof -
  assume open_swing: "in_swing (final_state d motion_energy)"
  from open_swing_prefix[OF open_swing]
  have "detect_swing_phases d motion_energy
       = detect_swing_phases d
           (take (nat (swing_start (final_state d motion_energy))) motion_energy)"
    and "swing_start (final_state d motion_energy) < int (length motion_energy)"
    by (simp_all add: detect_swing_phases_def)
  moreover from scan_inv_final[of d motion_energy] open_swing
  have "\<forall>p \<in> set (detect_swing_phases d motion_energy).
           seg_start p < swing_start (final_state d motion_energy)
           \<and> seg_end p + stillness_frames d
               < swing_start (final_state d motion_energy)"
    by (auto simp: scan_inv_def detect_swing_phases_def)
  ultimately show ?thesis by blast
qed

theorem unfinished_swing_is_dropped_witness:
  "in_swing (final_state
      \<lparr>motion_threshold = 5, stillness_frames = 2,
       min_swing_duration = 1, max_swing_duration = 10\<rparr> [0, 6, 6, 0, 0, 6, 6, 0])
   \<and> swing_start (final_state
      \<lparr>motion_threshold = 5, stillness_frames = 2,
       min_swing_duration = 1, max_swing_duration = 10\<rparr> [0, 6, 6, 0, 0, 6, 6, 0]) = 5
   \<and> detect_swing_phases
      \<lparr>motion_threshold = 5, stillness_frames = 2,
       min_swing_duration = 1, max_swing_duration = 10\<rparr> [0, 6, 6, 0, 0, 6, 6, 0]
     = detect_swing_phases
      \<lparr>motion_threshold = 5, stillness_frames = 2,
       min_swing_duration = 1, max_swing_duration = 10\<rparr> [0, 6, 6, 0, 0]"
proof -
  let ?d = "\<lparr>motion_threshold = 5, stillness_frames = 2,
       min_swing_duration = 1, max_swing_duration = 10\<rparr>"
  let ?me = "[0, 6, 6, 0, 0, 6, 6, 0] :: real list"
  have f: "final_state ?d ?me
    = \<lparr>swings = [(1, 2, ''full_swing'')], in_swing = True, swing_start = 5,
       stillness_counter = 1\<rparr>"
    by (simp add: final_state_def scan_step_def init_state_def)
  have o: "in_swing (final_state ?d ?me)" and st: "swing_start (final_state ?d ?me) = 5"
    by (simp_all add: f)
  from unfinished_swing_is_dropped[OF o]
  have "detect_swing_phases ?d ?me = detect_swing_phases ?d (take (nat 5) ?me)"
    by (simp only: st)
  then have "detect_swing_phases ?d ?me = detect_swing_phases ?d [0, 6, 6, 0, 0]"
    by simp
  with o st show ?thesis by blast
qed

text \<open>
  Claim C9. In the list returned by \<open>detect_swing_phases\<close>, a later segment starts at
  least \<open>stillness_frames + 1\<close> frames after the end of every earlier one, and every
  segment has \<open>start \<le> end\<close>. Hence, for a non-negative \<open>stillness_frames\<close>, segments
  are strictly increasing and no frame belongs to two of them.
\<close>

theorem segments_disjoint_and_increasing:
  "(\<forall>i j. i < j \<and> j < length (detect_swing_phases d motion_energy) \<longrightarrow>
       seg_end (detect_swing_phases d motion_energy ! i) + stillness_frames d + 1
         \<le> seg_start (detect_swing_phases d motion_energy ! j))
   \<and> (\<forall>p \<in> set (detect_swing_phases d motion_energy). seg_start p \<le> seg_end p)
   \<and> (0 \<le> stillness_frames d \<longrightarrow>
        (\<forall>i j. i < j \<and> j < length (detect_swing_phases d motion_energy) \<longrightarrow>
           seg_end (detect_swing_phases d motion_energy ! i)
             < seg_start (detect_swing_phases d motion_energy ! j)
           \<and> {seg_start (detect_swing_phases d motion_energy ! i) ..
               seg_end (detect_swing_phases d motion_energy ! i)}
             \<inter> {seg_start (detect_swing_phases d motion_energy ! j) ..
                 seg_end (detect_swing_phases d motion_energy ! j)} = {}))"
proof -
  let ?segs = "detect_swing_phases d motion_energy"
  from scan_inv_final[of d motion_energy]
  have sorted: "sorted_wrt (\<lambda>p q. seg_end p + stillness_frames d + 1 \<le> seg_start q) ?segs"
    and nonempty: "\<forall>p \<in> set ?segs. seg_start p \<le> seg_end p"
    by (simp_all add: scan_inv_def detect_swing_phases_def)
  have gap: "seg_end (?segs ! i) + stillness_frames d + 1 \<le> seg_start (?segs ! j)"
    if "i < j" "j < length ?segs" for i j
    using sorted that by (simp add: sorted_wrt_iff_nth_less)
  have apart: "seg_end (?segs ! i) < seg_start (?segs ! j)
      \<and> {seg_start (?segs ! i) .. seg_end (?segs ! i)}
          \<inter> {seg_start (?segs ! j) .. seg_end (?segs ! j)} = {}"
    if "0 \<le> stillness_frames d" "i < j" "j < length ?segs" for i j
    using gap[OF that(2,3)] that(1) by auto
  from gap nonempty apart show ?thesis by blast
qed

lemma two_swings_run:
  "detect_swing_phases
     \<lparr>motion_threshold = 5, stillness_frames = 2,
      min_swing_duration = 1, max_swing_duration = 10\<rparr> [0, 6, 6, 0, 0, 6, 6, 0, 0]
   = [(1, 2, ''full_swing''), (5, 6, ''full_swing'')]"
  by (simp add: detect_swing_phases_def final_state_def scan_step_def init_state_def)

theorem segments_disjoint_and_increasing_witness:
  "detect_swing_phases
     \<lparr>motion_threshold = 5, stillness_frames = 2,
      min_swing_duration = 1, max_swing_duration = 10\<rparr> [0, 6, 6, 0, 0, 6, 6, 0, 0]
   = [(1, 2, ''full_swing''), (5, 6, ''full_swing'')]
   \<and> seg_end (1, 2, ''full_swing'') + 2 + 1 \<le> seg_start (5, 6, ''full_swing'')
   \<and> {seg_start (1, 2, ''full_swing'') .. seg_end (1, 2, ''full_swing'')}
       \<inter> {seg_start (5, 6, ''full_swing'') .. seg_end (5, 6, ''full_swing'')} = {}"
proof -
  let ?d = "\<lparr>motion_threshold = 5, stillness_frames = 2,
      min_swing_duration = 1, max_swing_duration = 10\<rparr>"
  let ?me = "[0, 6, 6, 0, 0, 6, 6, 0, 0] :: real list"
  note run = two_swings_run
  have idx: "(0::nat) < 1 \<and> 1 < length (detect_swing_phases ?d ?me)"
    by (simp add: run)
  have nonneg: "0 \<le> stillness_frames ?d" by simp
  from segments_disjoint_and_increasing[of ?d ?me] idx nonneg
  have "seg_end (detect_swing_phases ?d ?me ! 0) + stillness_frames ?d + 1
          \<le> seg_start (detect_swing_phases ?d ?me ! 1)
        \<and> {seg_start (detect_swing_phases ?d ?me ! 0) ..
             seg_end (detect_swing_phases ?d ?me ! 0)}
           \<inter> {seg_start (detect_swing_phases ?d ?me ! 1) ..
               seg_end (detect_swing_phases ?d ?me ! 1)} = {}"
    by blast
  then show ?thesis by (simp add: run)
qed

text \<open>
  Claim C10. A frame whose energy equals \<open>motion_threshold\<close> leaves an idle scan
  unchanged (no swing starts), and inside a swing it only resets the stillness counter
  to 0.
\<close>

theorem threshold_energy_neither_starts_nor_stills:
  "scan_step d i (motion_threshold d) s
     = (if in_swing s then s\<lparr>stillness_counter := 0\<rparr> else s)"
  by (simp add: scan_step_def)

theorem threshold_energy_neither_starts_nor_stills_witness:
  "scan_step \<lparr>motion_threshold = 5, stillness_frames = 2,
              min_swing_duration = 1, max_swing_duration = 10\<rparr> 3 5
     \<lparr>swings = [], in_swing = True, swing_start = 1, stillness_counter = 1\<rparr>
   = \<lparr>swings = [], in_swing = True, swing_start = 1, stillness_counter = 0\<rparr>
   \<and> scan_step \<lparr>motion_threshold = 5, stillness_frames = 2,
              min_swing_duration = 1, max_swing_duration = 10\<rparr> 3 5 init_state
   = init_state"
  using threshold_energy_neither_starts_nor_stills
          [of "\<lparr>motion_threshold = 5, stillness_frames = 2,
              min_swing_duration = 1, max_swing_duration = 10\<rparr>" 3
              "\<lparr>swings = [], in_swing = True, swing_start = 1, stillness_counter = 1\<rparr>"]
        threshold_energy_neither_starts_nor_stills
          [of "\<lparr>motion_threshold = 5, stillness_frames = 2,
              min_swing_duration = 1, max_swing_duration = 10\<rparr>" 3 init_state]
  by (simp add: init_state_def)

section \<open>Properties of the key-position identifier\<close>

lemma and_then_Inr [simp]: "and_then (Inr x) f = f x"
  by (simp add: and_then_def)

lemma and_then_Inl [simp]: "and_then (Inl e) f = Inl e"
  by (simp add: and_then_def)

lemma argmin_from_bound:
  "bi < i \<Longrightarrow> argmin_from best bi i xs < i + length xs"
proof (induction xs arbitrary: best bi i)
  case Nil
  then show ?case by simp
next
  case (Cons x xs)
  have a: "argmin_from x i (i + 1) xs < i + 1 + length xs"
    by (rule Cons.IH) simp
  have b: "argmin_from best bi (i + 1) xs < i + 1 + length xs"
    by (rule Cons.IH) (use Cons.prems in simp)
  from a b show ?case by simp
qed

lemma argmin_from_no_smaller:
  "\<forall>x \<in> set xs. \<not> x < best \<Longrightarrow> argmin_from best bi i xs = bi"
  by (induction xs arbitrary: i) auto

lemma argmin_total:
  "xs \<noteq> [] \<Longrightarrow> \<exists>t. argmin xs = Inr t \<and> t < length xs"
  using argmin_from_bound[of 0 1 "hd xs" "tl xs"]
  by (cases xs) (auto simp: argmin_def)

lemma argmin_zeros: "0 < n \<Longrightarrow> argmin (replicate n 0) = Inr 0"
  by (cases n) (simp_all add: argmin_def argmin_from_no_smaller)

lemma impact_floor: "\<lfloor>real n * 0.8\<rfloor> = int ((4 * n) div 5)"
proof -
  have "real n * 0.8 = real (4 * n) / real 5" by simp
  then show ?thesis by (simp only: floor_divide_of_nat_eq)
qed

lemma identify_nonempty:
  assumes "py_slice ls start (end_frame + 1) = seg" "seg \<noteq> []"
  shows "\<exists>t. identify_swing_positions ls (start, end_frame)
            = Inr [''address'' \<mapsto> start, ''top'' \<mapsto> start + int t,
                   ''impact'' \<mapsto> start + \<lfloor>real (length seg) * 0.8\<rfloor>,
                   ''finish'' \<mapsto> start + int (length seg) - 1]
           \<and> (if length seg div 2 > 0
               then argmin (take (length seg div 2) (map wrist_height seg)) = Inr t
                    \<and> t < length seg div 2
               else t = 0)"
proof (cases "length seg div 2 > 0")
  case True
  then have "take (length seg div 2) (map wrist_height seg) \<noteq> []" using assms(2) by simp
  from argmin_total[OF this] obtain t where
    t: "argmin (take (length seg div 2) (map wrist_height seg)) = Inr t" "t < length seg div 2"
    by auto
  with True assms show ?thesis
    by (auto simp: identify_swing_positions_def Let_def algebra_simps)
next
  case False
  with assms show ?thesis
    by (auto simp: identify_swing_positions_def Let_def algebra_simps)
qed

lemma py_slice_inside:
  "0 \<le> start \<Longrightarrow> start \<le> end_frame \<Longrightarrow> end_frame < int (length ls) \<Longrightarrow>
     int (length (py_slice ls start (end_frame + 1))) = end_frame - start + 1"
  by (auto simp: py_slice_def slice_bound_def Let_def min_def)

lemma wrist_heights_all_missing:
  "\<forall>f \<in> set seg. f = None \<Longrightarrow> map wrist_height seg = replicate (length seg) 0"
  by (induction seg) (simp_all add: wrist_height_def)

lemma identify_empty_iff:
  "identify_swing_positions ls (start, end_frame) = Inr Map.empty
     \<longleftrightarrow> py_slice ls start (end_frame + 1) = []"
proof (cases "py_slice ls start (end_frame + 1) = []")
  case True
  then show ?thesis by (simp add: identify_swing_positions_def)
next
  case False
  from identify_nonempty[OF refl False] obtain t where
    "identify_swing_positions ls (start, end_frame)
       = Inr [''address'' \<mapsto> start, ''top'' \<mapsto> start + int t,
              ''impact'' \<mapsto> start
                 + \<lfloor>real (length (py_slice ls start (end_frame + 1))) * 0.8\<rfloor>,
              ''finish'' \<mapsto> start + int (length (py_slice ls start (end_frame + 1))) - 1]"
    by blast
  with False show ?thesis by simp
qed

text \<open>
  Claim C3, as stated, fails: for the two-frame sequence of missing frames and the
  segment \<open>(0, 1)\<close>, every frame of the slice is missing, and the result is not the
  empty mapping but all four key positions.
\<close>

theorem all_missing_segment_counterexample:
  "py_slice [None, None :: frame option] 0 (1 + 1) = [None, None]
   \<and> identify_swing_positions [None, None] (0, 1)
       = Inr [''address'' \<mapsto> 0, ''top'' \<mapsto> 0, ''impact'' \<mapsto> 1, ''finish'' \<mapsto> 1]
   \<and> identify_swing_positions [None, None] (0, 1) \<noteq> Inr Map.empty"
proof -
  have s: "py_slice [None, None :: frame option] 0 2 = [None, None]"
    by (simp add: py_slice_def slice_bound_def)
  have f: "\<lfloor>(2::real) * 0.8\<rfloor> = 1" by simp
  have r: "identify_swing_positions [None, None] (0, 1)
       = Inr [''address'' \<mapsto> 0, ''top'' \<mapsto> 0, ''impact'' \<mapsto> 1, ''finish'' \<mapsto> 1]"
    by (simp add: identify_swing_positions_def s f wrist_height_def argmin_def)
  have "identify_swing_positions [None, None] (0, 1) \<noteq> Inr Map.empty"
    by (simp only: r sum.inject) simp
  with s r show ?thesis by simp
qed

text \<open>
  Claim C3, amended. \<open>identify_swing_positions\<close> returns the empty mapping exactly when
  the slice \<open>landmarks_sequence[start:end+1]\<close> selects no frame. For a non-empty slice
  of \<open>n\<close> frames that are all missing (each contributes wrist height 0) it returns all
  four key positions: address and top at \<open>start\<close>, impact at \<open>start + floor(0.8 n)\<close>,
  finish at \<open>start + n - 1\<close>.
\<close>

theorem empty_mapping_only_for_empty_slice:
  "(identify_swing_positions ls (start, end_frame) = Inr Map.empty
      \<longleftrightarrow> py_slice ls start (end_frame + 1) = [])
   \<and> (py_slice ls start (end_frame + 1) \<noteq> []
        \<and> (\<forall>f \<in> set (py_slice ls start (end_frame + 1)). f = None)
      \<longrightarrow> identify_swing_positions ls (start, end_frame)
            = Inr [''address'' \<mapsto> start, ''top'' \<mapsto> start,
                   ''impact'' \<mapsto> start
                      + \<lfloor>real (length (py_slice ls start (end_frame + 1))) * 0.8\<rfloor>,
                   ''finish'' \<mapsto> start
                      + int (length (py_slice ls start (end_frame + 1))) - 1])"
proof (intro conjI impI)
  show "identify_swing_positions ls (start, end_frame) = Inr Map.empty
      \<longleftrightarrow> py_slice ls start (end_frame + 1) = []"
    by (rule identify_empty_iff)
next
  let ?seg = "py_slice ls start (end_frame + 1)"
  assume a: "?seg \<noteq> [] \<and> (\<forall>f \<in> set ?seg. f = None)"
  then have wh: "map wrist_height ?seg = replicate (length ?seg) 0"
    by (simp add: wrist_heights_all_missing)
  from identify_nonempty[OF refl conjunct1[OF a]] obtain t where
    r: "identify_swing_positions ls (start, end_frame)
          = Inr [''address'' \<mapsto> start, ''top'' \<mapsto> start + int t,
                 ''impact'' \<mapsto> start + \<lfloor>real (length ?seg) * 0.8\<rfloor>,
                 ''finish'' \<mapsto> start + int (length ?seg) - 1]"
    and t: "if length ?seg div 2 > 0
            then argmin (take (length ?seg div 2) (map wrist_height ?seg)) = Inr t
                 \<and> t < length ?seg div 2
            else t = 0"
    by blast
  have "t = 0"
  proof (cases "length ?seg div 2 > 0")
    case True
    with t have "argmin (take (length ?seg div 2) (replicate (length ?seg) 0)) = Inr t"
      by (simp add: wh)
    moreover have "take (length ?seg div 2) (replicate (length ?seg) (0::real))
        = replicate (length ?seg div 2) 0"
      by (simp add: min_def)
    ultimately show ?thesis using True by (simp add: argmin_zeros)
  next
    case False
    with t show ?thesis by simp
  qed
  with r show "identify_swing_positions ls (start, end_frame)
            = Inr [''address'' \<mapsto> start, ''top'' \<mapsto> start,
                   ''impact'' \<mapsto> start + \<lfloor>real (length ?seg) * 0.8\<rfloor>,
                   ''finish'' \<mapsto> start + int (length ?seg) - 1]"
    by simp
qed

theorem empty_mapping_only_for_empty_slice_witness:
  "py_slice [None, None, None :: frame option] 0 (2 + 1) = [None, None, None]
   \<and> identify_swing_positions [None, None, None] (0, 2)
       = Inr [''address'' \<mapsto> 0, ''top'' \<mapsto> 0, ''impact'' \<mapsto> 2, ''finish'' \<mapsto> 2]
   \<and> py_slice [None, None, None :: frame option] 5 (7 + 1) = []
   \<and> identify_swing_positions [None, None, None] (5, 7) = Inr Map.empty"
proof -
  let ?ls = "[None, None, None :: frame option]"
  have s: "py_slice ?ls 0 3 = ?ls"
    by (simp add: py_slice_def slice_bound_def)
  have e: "py_slice ?ls 5 8 = []"
    by (simp add: py_slice_def slice_bound_def)
  have f: "\<lfloor>(3::real) * 0.8\<rfloor> = 2" by simp
  have pre: "py_slice ?ls 0 (2 + 1) \<noteq> [] \<and> (\<forall>f \<in> set (py_slice ?ls 0 (2 + 1)). f = None)"
    by (simp add: s)
  from empty_mapping_only_for_empty_slice[of ?ls 0 2] pre
  have "identify_swing_positions ?ls (0, 2)
       = Inr [''address'' \<mapsto> 0, ''top'' \<mapsto> 0,
              ''impact'' \<mapsto> 0 + \<lfloor>real (length (py_slice ?ls 0 (2 + 1))) * 0.8\<rfloor>,
              ''finish'' \<mapsto> 0 + int (length (py_slice ?ls 0 (2 + 1))) - 1]"
    by blast
  then have a: "identify_swing_positions ?ls (0, 2)
       = Inr [''address'' \<mapsto> 0, ''top'' \<mapsto> 0, ''impact'' \<mapsto> 2, ''finish'' \<mapsto> 2]"
    by (simp add: s f)
  from empty_mapping_only_for_empty_slice[of ?ls 5 7] e
  have b: "identify_swing_positions ?ls (5, 7) = Inr Map.empty"
    by simp
  from s a e b show ?thesis by simp
qed

text \<open>
  Claim C4, as stated, fails: for five frames and the segment \<open>(0, 4)\<close> the code returns
  impact = finish = 4. Whether \<open>L\<close> is read as the number of frames (5) or as
  \<open>end - start\<close> (4), the claimed \<open>impact = floor(0.8 L) < L = finish\<close> does not hold.
\<close>

theorem key_positions_finish_counterexample:
  "identify_swing_positions [None, None, None, None, None] (0, 4)
     = Inr [''address'' \<mapsto> 0, ''top'' \<mapsto> 0, ''impact'' \<mapsto> 4, ''finish'' \<mapsto> 4]
   \<and> \<not> key_positions_as_claimed 5 0 0 4 4
   \<and> \<not> key_positions_as_claimed 4 0 0 4 4"
proof -
  have s: "py_slice [None, None, None, None, None :: frame option] 0 5
             = [None, None, None, None, None]"
    by (simp add: py_slice_def slice_bound_def)
  have f: "\<lfloor>(5::real) * 0.8\<rfloor> = 4" by simp
  have "identify_swing_positions [None, None, None, None, None] (0, 4)
     = Inr [''address'' \<mapsto> 0, ''top'' \<mapsto> 0, ''impact'' \<mapsto> 4, ''finish'' \<mapsto> 4]"
    by (simp add: identify_swing_positions_def s f wrist_height_def argmin_def)
  moreover have "\<not> key_positions_as_claimed 5 0 0 4 4"
    by (simp add: key_positions_as_claimed_def)
  moreover have "\<not> key_positions_as_claimed 4 0 0 4 4"
    by (simp add: key_positions_as_claimed_def)
  ultimately show ?thesis by blast
qed

text \<open>
  Claim C4, amended. For a segment whose slice has \<open>n \<ge> 2\<close> frames
  (\<open>n = end - start + 1\<close> when the segment lies inside the sequence),
  \<open>identify_swing_positions\<close> returns the four key positions, relative to \<open>start\<close>:
  address = 0, top in \<open>[0, n/2)\<close>, impact = \<open>floor(0.8 n) < n\<close>, finish = \<open>n - 1\<close>, and
  address \<le> top \<le> impact \<le> finish.
\<close>

theorem key_positions_ordered:
  assumes "length (py_slice ls start (end_frame + 1)) = n" and "2 \<le> n"
  shows "(\<exists>t. identify_swing_positions ls (start, end_frame)
              = Inr [''address'' \<mapsto> start + 0, ''top'' \<mapsto> start + int t,
                     ''impact'' \<mapsto> start + \<lfloor>real n * 0.8\<rfloor>,
                     ''finish'' \<mapsto> start + (int n - 1)]
            \<and> key_positions_in_order (int n) 0 (int t) \<lfloor>real n * 0.8\<rfloor> (int n - 1))
         \<and> (0 \<le> start \<and> start \<le> end_frame \<and> end_frame < int (length ls)
              \<longrightarrow> int n = end_frame - start + 1)"
proof -
  let ?seg = "py_slice ls start (end_frame + 1)"
  from assms have ne: "?seg \<noteq> []" by auto
  from assms have half: "length ?seg div 2 > 0" by simp
  from identify_nonempty[OF refl ne] half assms(1) obtain t where
    r: "identify_swing_positions ls (start, end_frame)
          = Inr [''address'' \<mapsto> start, ''top'' \<mapsto> start + int t,
                 ''impact'' \<mapsto> start + \<lfloor>real n * 0.8\<rfloor>,
                 ''finish'' \<mapsto> start + int n - 1]"
    and t: "t < n div 2"
    by auto
  define k where "k = \<lfloor>real n * 0.8\<rfloor>"
  have k: "k = int ((4 * n) div 5)"
    unfolding k_def by (rule impact_floor)
  have k': "k = \<lfloor>real_of_int (int n) * 0.8\<rfloor>"
    unfolding k_def by simp
  have "key_positions_in_order (int n) 0 (int t) k (int n - 1)"
    unfolding key_positions_in_order_def
  proof (intro conjI)
    show "k = \<lfloor>real_of_int (int n) * 0.8\<rfloor>" by (rule k')
    show "int t \<le> k" using t k by simp
    show "k \<le> int n - 1" using assms(2) k by simp
    show "k < int n" using assms(2) k by simp
    show "real_of_int (int t) < real_of_int (int n) / 2" using t by simp
  qed simp_all
  then have "key_positions_in_order (int n) 0 (int t) \<lfloor>real n * 0.8\<rfloor> (int n - 1)"
    unfolding k_def .
  moreover have "identify_swing_positions ls (start, end_frame)
              = Inr [''address'' \<mapsto> start + 0, ''top'' \<mapsto> start + int t,
                     ''impact'' \<mapsto> start + \<lfloor>real n * 0.8\<rfloor>,
                     ''finish'' \<mapsto> start + (int n - 1)]"
    using r by (simp add: algebra_simps)
  moreover have "int n = end_frame - start + 1"
    if "0 \<le> start \<and> start \<le> end_frame \<and> end_frame < int (length ls)"
    using py_slice_inside[of start end_frame ls] that assms(1) by simp
  ultimately show ?thesis by blast
qed

theorem key_positions_ordered_witness:
  "length (py_slice
     ([Some (replicate 17 (0, 0.5, 0)), Some (replicate 17 (0, 0.4, 0)),
       Some (replicate 17 (0, 0.2, 0)), Some (replicate 17 (0, 0.6, 0)),
       None, Some (replicate 17 (0, 0.8, 0))] :: landmarks) 0 (5 + 1)) = 6
   \<and> identify_swing_positions
     [Some (replicate 17 (0, 0.5, 0)), Some (replicate 17 (0, 0.4, 0)),
      Some (replicate 17 (0, 0.2, 0)), Some (replicate 17 (0, 0.6, 0)),
      None, Some (replicate 17 (0, 0.8, 0))] (0, 5)
     = Inr [''address'' \<mapsto> 0, ''top'' \<mapsto> 2, ''impact'' \<mapsto> 4, ''finish'' \<mapsto> 5]
   \<and> key_positions_in_order 6 0 2 4 5"
proof -
  let ?ls = "[Some (replicate 17 (0, 0.5, 0)), Some (replicate 17 (0, 0.4, 0)),
      Some (replicate 17 (0, 0.2, 0)), Some (replicate 17 (0, 0.6, 0)),
      None, Some (replicate 17 (0, 0.8, 0))] :: landmarks"
  have len: "length (py_slice ?ls 0 (5 + 1)) = 6"
    by (simp add: py_slice_def slice_bound_def)
  have f: "\<lfloor>(6::real) * 0.8\<rfloor> = 4" by simp
  have run: "identify_swing_positions ?ls (0, 5)
     = Inr [''address'' \<mapsto> 0, ''top'' \<mapsto> 2, ''impact'' \<mapsto> 4, ''finish'' \<mapsto> 5]"
    by (simp add: identify_swing_positions_def py_slice_def slice_bound_def f
          wrist_height_def argmin_def py_def)
  from key_positions_ordered[OF len] obtain t where
    r: "identify_swing_positions ?ls (0, 5)
          = Inr [''address'' \<mapsto> 0 + 0, ''top'' \<mapsto> 0 + int t,
                 ''impact'' \<mapsto> 0 + \<lfloor>real 6 * 0.8\<rfloor>, ''finish'' \<mapsto> 0 + (int 6 - 1)]"
    and o: "key_positions_in_order (int 6) 0 (int t) \<lfloor>real 6 * 0.8\<rfloor> (int 6 - 1)"
    by auto
  from r run have "[''address'' \<mapsto> 0 + 0, ''top'' \<mapsto> 0 + int t,
                 ''impact'' \<mapsto> 0 + \<lfloor>real 6 * 0.8\<rfloor>, ''finish'' \<mapsto> 0 + (int 6 - 1)] ''top''
      = [''address'' \<mapsto> 0, ''top'' \<mapsto> 2, ''impact'' \<mapsto> 4, ''finish'' \<mapsto> (5::int)] ''top''"
    by simp
  then have "int t = 2" by simp
  with o have "key_positions_in_order 6 0 2 4 5" by (simp add: f)
  with len run show ?thesis by simp
qed

section \<open>Properties of the motion-energy estimator\<close>

lemma collect_length:
  "collect f xs = Inr ys \<Longrightarrow> length ys = length xs"
proof (induction xs arbitrary: ys)
  case Nil
  then show ?case by simp
next
  case (Cons x xs)
  then show ?case
    by (auto simp: and_then_def split: sum.splits)
qed

lemma collect_all:
  "collect f xs = Inr ys \<Longrightarrow> \<forall>y \<in> set ys. \<exists>x \<in> set xs. f x = Inr y"
proof (induction xs arbitrary: ys)
  case Nil
  then show ?case by simp
next
  case (Cons x xs)
  then show ?case
    by (auto simp: and_then_def split: sum.splits)
qed

lemma norm3_nonneg: "0 \<le> norm3 p"
  by (simp add: norm3_def)

lemma np_mean_nonneg: "\<forall>x \<in> set xs. 0 \<le> x \<Longrightarrow> 0 \<le> np_mean xs"
  by (simp add: np_mean_def sum_list_nonneg)

lemma np_take_nonneg:
  assumes "np_take xs idxs = Inr ys" and "\<forall>x \<in> set xs. 0 \<le> x"
  shows "\<forall>y \<in> set ys. 0 \<le> y"
proof
  fix y assume "y \<in> set ys"
  with collect_all[OF assms(1)[unfolded np_take_def]]
  obtain k where "(if k < length xs then Inr (xs ! k) else Inl IndexError) = Inr y"
    by blast
  then have "k < length xs" and "y = xs ! k" by (auto split: if_splits)
  with assms(2) show "0 \<le> y" by simp
qed

lemma frame_energy_nonneg: "frame_energy cur prev = Inr e \<Longrightarrow> 0 \<le> e"
proof (cases cur; cases prev)
  fix c p assume cp: "cur = Some c" "prev = Some p" and r: "frame_energy cur prev = Inr e"
  from r cp obtain diff displacement where
    "np_take (map norm3 diff) key_joints = Inr displacement"
    and e: "e = np_mean displacement * 100"
    by (auto simp: frame_energy_def and_then_def split: sum.splits)
  from np_take_nonneg[OF this(1)] have "\<forall>y \<in> set displacement. 0 \<le> y"
    by (simp add: norm3_nonneg)
  then show "0 \<le> e" unfolding e by (simp add: np_mean_nonneg)
qed (simp_all add: frame_energy_def)

lemma energy_loop_props:
  "energy_loop prev ls = Inr es \<Longrightarrow> length es = length ls \<and> (\<forall>e \<in> set es. 0 \<le> e)"
proof (induction ls arbitrary: prev es)
  case Nil
  then show ?case by simp
next
  case (Cons cur rest)
  from Cons.prems obtain e es' where
    e: "frame_energy cur prev = Inr e" and es': "energy_loop cur rest = Inr es'"
    and es: "es = e # es'"
    by (auto simp: and_then_def split: sum.splits)
  from Cons.IH[OF es'] frame_energy_nonneg[OF e] es show ?case by simp
qed

lemma savgol_interior_length: "length (savgol_interior x) = length x - 4"
  by (induction x rule: savgol_interior.induct) simp_all

lemma savgol_length: "savgol_filter_5_2 x = Inr y \<Longrightarrow> length y = length x"
  by (auto simp: savgol_filter_5_2_def Let_def savgol_interior_length split: if_splits)

lemma collect_total:
  "\<forall>x \<in> set xs. \<exists>y. f x = Inr y \<Longrightarrow> \<exists>ys. collect f xs = Inr ys"
proof (induction xs)
  case Nil
  show ?case by simp
next
  case (Cons x xs)
  then obtain y ys where "f x = Inr y" "collect f xs = Inr ys" by auto
  then show ?case by simp
qed

lemma frame_energy_total:
  assumes "\<forall>lm. cur = Some lm \<longrightarrow> length lm = 33"
    and "\<forall>lm. prev = Some lm \<longrightarrow> length lm = 33"
  shows "\<exists>e. frame_energy cur prev = Inr e"
proof (cases cur; cases prev)
  fix c p assume cp: "cur = Some c" "prev = Some p"
  with assms have len: "length c = 33" "length p = 33" by auto
  then have sub: "np_sub c p = Inr (map2 row_sub c p)" by (simp add: np_sub_def)
  have "\<forall>k \<in> set key_joints. \<exists>y.
          (if k < length (map norm3 (map2 row_sub c p))
           then Inr (map norm3 (map2 row_sub c p) ! k) else Inl IndexError) = Inr y"
    using len by (simp add: key_joints_def)
  from collect_total[OF this] obtain d where
    "np_take (map norm3 (map2 row_sub c p)) key_joints = Inr d"
    unfolding np_take_def by blast
  with sub cp show ?thesis by (simp add: frame_energy_def)
qed (simp_all add: frame_energy_def)

lemma energy_loop_total:
  "\<forall>lm. prev = Some lm \<longrightarrow> length lm = 33 \<Longrightarrow>
   \<forall>lm. Some lm \<in> set ls \<longrightarrow> length lm = 33 \<Longrightarrow>
   \<exists>es. energy_loop prev ls = Inr es"
proof (induction ls arbitrary: prev)
  case Nil
  show ?case by simp
next
  case (Cons cur rest)
  have c: "\<forall>lm. cur = Some lm \<longrightarrow> length lm = 33" using Cons.prems(2) by simp
  from frame_energy_total[OF c Cons.prems(1)] obtain e where
    e: "frame_energy cur prev = Inr e" by blast
  from Cons.IH[OF c] Cons.prems(2) obtain es where
    es: "energy_loop cur rest = Inr es" by auto
  from e es show ?case by simp
qed

lemma motion_energy_returns:
  assumes "\<forall>lm. Some lm \<in> set ls \<longrightarrow> length lm = 33"
  shows "\<exists>me. calculate_motion_energy ls = Inr me"
proof (cases "length ls < 2")
  case True
  then show ?thesis by (simp add: calculate_motion_energy_def)
next
  case False
  then obtain f rest where ls: "ls = f # rest" by (cases ls) auto
  from assms ls have "\<forall>lm. f = Some lm \<longrightarrow> length lm = 33"
    and "\<forall>lm. Some lm \<in> set rest \<longrightarrow> length lm = 33" by auto
  from energy_loop_total[OF this] obtain es where es: "energy_loop f rest = Inr es" by blast
  from False ls es show ?thesis
    by (simp add: calculate_motion_energy_def Let_def savgol_filter_5_2_def
          velocity_smoothing_window_def)
qed

lemma motion_energy_shape:
  assumes "calculate_motion_energy ls = Inr me"
  shows "length me = length ls"
    and "length ls \<le> velocity_smoothing_window \<Longrightarrow> \<forall>e \<in> set me. 0 \<le> e"
proof -
  show "length me = length ls"
  proof (cases "length ls < 2")
    case True
    with assms show ?thesis by (auto simp: calculate_motion_energy_def)
  next
    case False
    then obtain f rest where ls: "ls = f # rest" by (cases ls) auto
    from assms False ls obtain es where es: "energy_loop f rest = Inr es"
      and me: "(if length (0 # es) > velocity_smoothing_window
                then savgol_filter_5_2 (0 # es) else Inr (0 # es)) = Inr me"
      by (auto simp: calculate_motion_energy_def and_then_def Let_def split: sum.splits)
    from energy_loop_props[OF es] have "length es = length rest" by simp
    with me ls show ?thesis
      by (auto simp: savgol_length split: if_splits dest: savgol_length)
  qed
  show "\<forall>e \<in> set me. 0 \<le> e" if small: "length ls \<le> velocity_smoothing_window"
  proof (cases "length ls < 2")
    case True
    with assms show ?thesis by (auto simp: calculate_motion_energy_def)
  next
    case False
    then obtain f rest where ls: "ls = f # rest" by (cases ls) auto
    from assms False ls obtain es where es: "energy_loop f rest = Inr es"
      and me: "(if length (0 # es) > velocity_smoothing_window
                then savgol_filter_5_2 (0 # es) else Inr (0 # es)) = Inr me"
      by (auto simp: calculate_motion_energy_def and_then_def Let_def split: sum.splits)
    from energy_loop_props[OF es] have l: "length es = length rest"
      and nn: "\<forall>e \<in> set es. 0 \<le> e" by simp_all
    from me l ls small have "me = 0 # es" by (auto split: if_splits)
    with nn show ?thesis by simp
  qed
qed

text \<open>
  Claim C1, amended. Whenever \<open>calculate_motion_energy\<close> returns, its output has the
  length of the input, and every element is \<open>\<ge> 0\<close> when the sequence is not longer than
  the smoothing window (no filter is applied). It returns on every sequence whose present
  frames have the 33 rows the pose estimator produces. Nothing is promised about the sign
  of a smoothed value.
\<close>

theorem motion_energy_length_and_sign:
  "(calculate_motion_energy ls = Inr me \<longrightarrow>
      length me = length ls
      \<and> (length ls \<le> velocity_smoothing_window \<longrightarrow> (\<forall>e \<in> set me. 0 \<le> e)))
   \<and> ((\<forall>lm. Some lm \<in> set ls \<longrightarrow> length lm = 33)
        \<longrightarrow> (\<exists>out. calculate_motion_energy ls = Inr out))"
  using motion_energy_shape[of ls me] motion_energy_returns[of ls] by blast

lemma frame_energy_uniform:
  "frame_energy (Some (replicate 33 p)) (Some (replicate 33 q))
     = Inr (norm3 (row_sub p q) * 100)"
proof -
  have sub: "np_sub (replicate 33 p) (replicate 33 q) = Inr (replicate 33 (row_sub p q))"
    by (simp add: np_sub_def zip_replicate)
  have pick: "np_take (replicate 33 v) key_joints = Inr (replicate 8 v)" for v :: real
    by (simp add: np_take_def key_joints_def eval_nat_numeral)
  have mean: "np_mean (replicate 8 v) = v" for v :: real
    by (simp add: np_mean_def sum_list_replicate)
  show ?thesis
    by (simp add: frame_energy_def sub pick mean)
qed

lemma norm3_unit: "norm3 (row_sub (1, 0, 0) (0, 0, 0)) = 1"
  by (simp add: norm3_def row_sub_def px_def py_def pz_def)

lemma norm3_same: "norm3 (row_sub p p) = 0"
  by (simp add: norm3_def row_sub_def px_def py_def pz_def)

text \<open>
  Claim C1, as stated, fails: six frames of 33 landmarks each, standing still at the
  origin for four frames, then moved by one unit along x and standing still again. The
  raw energies are \<open>[0, 0, 0, 0, 100, 0]\<close>; the sequence is longer than the smoothing
  window, so the filter is applied, and the smoothed value at frame 2, in the interior of
  the signal, is \<open>-3 \<times> 100 / 35 < 0\<close>.
\<close>

theorem smoothed_energy_negative_counterexample:
  "calculate_motion_energy
     [Some (replicate 33 (0, 0, 0)), Some (replicate 33 (0, 0, 0)),
      Some (replicate 33 (0, 0, 0)), Some (replicate 33 (0, 0, 0)),
      Some (replicate 33 (1, 0, 0)), Some (replicate 33 (1, 0, 0))]
   = Inr [60 / 7, - (100 / 7), - (60 / 7), 240 / 7, 260 / 7, 180 / 7]
   \<and> [60 / 7, - (100 / 7), - (60 / 7), 240 / 7, 260 / 7, 180 / 7] ! 2 < (0::real)"
proof -
  have loop: "energy_loop (Some (replicate 33 (0, 0, 0)))
     [Some (replicate 33 (0, 0, 0)),
      Some (replicate 33 (0, 0, 0)), Some (replicate 33 (0, 0, 0)),
      Some (replicate 33 (1, 0, 0)), Some (replicate 33 (1, 0, 0))]
    = Inr [0, 0, 0, 100, 0]"
    by (simp add: frame_energy_uniform norm3_unit norm3_same)
  have smooth: "savgol_filter_5_2 [0, 0, 0, 0, 100, 0]
    = Inr [60 / 7, - (100 / 7), - (60 / 7), 240 / 7, 260 / 7, 180 / 7]"
    by (simp add: savgol_filter_5_2_def parabola_at_def savgol_weights_def)
  show ?thesis
    by (simp add: calculate_motion_energy_def frame_energy_uniform norm3_unit norm3_same
          smooth velocity_smoothing_window_def)
qed

theorem motion_energy_length_and_sign_witness:
  "calculate_motion_energy
     [Some (replicate 33 (0, 0, 0)), Some (replicate 33 (1, 0, 0)), None]
     = Inr [0, 100, 0]
   \<and> length [0, 100, 0 :: real]
       = length [Some (replicate 33 (0, 0, 0)), Some (replicate 33 (1, 0, 0)), None :: frame option]
   \<and> list_all (\<lambda>e. 0 \<le> e) [0, 100, 0 :: real]
   \<and> (\<exists>out. calculate_motion_energy
         [Some (replicate 33 (0, 0, 0)), Some (replicate 33 (1, 0, 0)), None] = Inr out)"
proof -
  let ?ls = "[Some (replicate 33 (0, 0, 0)), Some (replicate 33 (1, 0, 0)), None] :: landmarks"
  have none: "frame_energy None prev = Inr 0" for prev
    by (simp add: frame_energy_def)
  have run: "calculate_motion_energy ?ls = Inr [0, 100, 0]"
    by (simp add: calculate_motion_energy_def frame_energy_uniform norm3_unit none
          velocity_smoothing_window_def)
  have short: "length ?ls \<le> velocity_smoothing_window"
    by (simp add: velocity_smoothing_window_def)
  have wf: "\<forall>lm. Some lm \<in> set ?ls \<longrightarrow> length lm = 33"
    by auto
  from motion_energy_length_and_sign[of ?ls "[0, 100, 0]"] run short wf
  have "length [0, 100, 0 :: real] = length ?ls
      \<and> (\<forall>e \<in> set [0, 100, 0 :: real]. 0 \<le> e)
      \<and> (\<exists>out. calculate_motion_energy ?ls = Inr out)"
    by blast
  with run show ?thesis by (simp only: list_all_iff) blast
qed

section \<open>Properties of the scoring engine\<close>

lemma round_half_even_lower: "0 \<le> x \<Longrightarrow> 0 \<le> round_half_even x"
  by (auto simp: round_half_even_def Let_def)

lemma round_half_even_upper:
  assumes "x \<le> of_int n"
  shows "round_half_even x \<le> n"
proof -
  have f: "\<lfloor>x\<rfloor> \<le> n" using assms by (simp add: floor_le_iff)
  show ?thesis
  proof (cases "x - of_int \<lfloor>x\<rfloor> < 1 / 2")
    case True
    with f show ?thesis by (simp add: round_half_even_def Let_def)
  next
    case False
    then have "of_int \<lfloor>x\<rfloor> < x" by simp
    with assms have "of_int \<lfloor>x\<rfloor> < (of_int n :: real)" by simp
    then have "\<lfloor>x\<rfloor> < n" by simp
    then have "\<lfloor>x\<rfloor> + 1 \<le> n" by simp
    with f show ?thesis by (auto simp: round_half_even_def Let_def)
  qed
qed

lemma py_round2_bounds:
  assumes "0 \<le> x" and "x \<le> 100"
  shows "0 \<le> py_round2 x \<and> py_round2 x \<le> 100"
proof -
  from assms(1) have "0 \<le> round_half_even (x * 100)"
    by (simp add: round_half_even_lower)
  moreover from assms(2) have "x * 100 \<le> of_int 10000" by simp
  then have "round_half_even (x * 100) \<le> 10000" by (rule round_half_even_upper)
  ultimately show ?thesis by (simp add: py_round2_def)
qed

lemma weights_sum_to_one:
  "swing_plane_consistency SCORING_WEIGHTS + rotation_quality SCORING_WEIGHTS
   + downswing_alignment SCORING_WEIGHTS + wrist_hinge SCORING_WEIGHTS
   + weight_transfer SCORING_WEIGHTS + tempo SCORING_WEIGHTS = 1"
  by (simp add: SCORING_WEIGHTS_def)

lemma weighted_sum_bounds:
  assumes "scores_in_range c"
  shows "0 \<le> weighted_sum SCORING_WEIGHTS c \<and> weighted_sum SCORING_WEIGHTS c \<le> 100"
  using assms by (simp add: scores_in_range_def weighted_sum_def SCORING_WEIGHTS_def)

text \<open>
  Claim C8. When the six component scores computed by \<open>calculate_swing_score\<close> each lie in
  \<open>[0, 100]\<close>, the function returns, and its \<open>overall_score\<close>, the weighted sum with the
  weights 0.25, 0.20, 0.20, 0.15, 0.10, 0.10 (which add up to 1) rounded to two decimals,
  lies in \<open>[0, 100]\<close>, as does the sum before rounding.
\<close>

theorem overall_score_within_bounds:
  assumes "component_values swing_plane_metrics rotation_metrics weight_transfer_metrics
             wrist_metrics tempo_metrics = Inr c"
    and "scores_in_range c"
  shows "\<exists>res. calculate_swing_score swing_plane_metrics rotation_metrics
                  weight_transfer_metrics wrist_metrics tempo_metrics = Inr res
          \<and> overall_score res = py_round2 (weighted_sum SCORING_WEIGHTS c)
          \<and> 0 \<le> weighted_sum SCORING_WEIGHTS c \<and> weighted_sum SCORING_WEIGHTS c \<le> 100
          \<and> 0 \<le> overall_score res \<and> overall_score res \<le> 100
          \<and> swing_plane_consistency SCORING_WEIGHTS + rotation_quality SCORING_WEIGHTS
             + downswing_alignment SCORING_WEIGHTS + wrist_hinge SCORING_WEIGHTS
             + weight_transfer SCORING_WEIGHTS + tempo SCORING_WEIGHTS = 1"
proof -
  from weighted_sum_bounds[OF assms(2)]
  have w: "0 \<le> weighted_sum SCORING_WEIGHTS c" "weighted_sum SCORING_WEIGHTS c \<le> 100"
    by simp_all
  from py_round2_bounds[OF w]
  have r: "0 \<le> py_round2 (weighted_sum SCORING_WEIGHTS c)"
    "py_round2 (weighted_sum SCORING_WEIGHTS c) \<le> 100" by simp_all
  from assms(1) w r weights_sum_to_one show ?thesis
    by (simp add: calculate_swing_score_def Let_def)
qed

lemma example_components:
  "component_values
     [''plane_consistency'' \<mapsto> Num 80, ''angle_error'' \<mapsto> Num 15]
     [''rotation_sequence_score'' \<mapsto> Num 100, ''max_shoulder_rotation'' \<mapsto> Num 90,
      ''max_hip_rotation'' \<mapsto> Num 45]
     [''weight_transfer_score'' \<mapsto> Num 50]
     [''wrist_hinge_score'' \<mapsto> Num 70]
     Map.empty
   = Inr \<lparr>swing_plane_consistency = 68, rotation_quality = 100,
          downswing_alignment = 80, wrist_hinge = 70, weight_transfer = 50, tempo = 0\<rparr>"
  by (simp add: component_values_def score_swing_plane_def score_rotation_def
        score_downswing_alignment_def get_num_def score_in_range_def
        swing_plane_tolerance_def ideal_shoulder_rotation_def ideal_hip_rotation_def
        rotation_tolerance_def)

lemma example_rounding: "py_round2 (137 / 2) = 137 / 2"
  by (simp add: py_round2_def round_half_even_def)

theorem overall_score_within_bounds_witness:
  "scores_in_range \<lparr>swing_plane_consistency = 68, rotation_quality = 100,
          downswing_alignment = 80, wrist_hinge = 70, weight_transfer = 50, tempo = 0\<rparr>
   \<and> (\<exists>res. calculate_swing_score
         [''plane_consistency'' \<mapsto> Num 80, ''angle_error'' \<mapsto> Num 15]
         [''rotation_sequence_score'' \<mapsto> Num 100, ''max_shoulder_rotation'' \<mapsto> Num 90,
          ''max_hip_rotation'' \<mapsto> Num 45]
         [''weight_transfer_score'' \<mapsto> Num 50]
         [''wrist_hinge_score'' \<mapsto> Num 70]
         Map.empty = Inr res
        \<and> overall_score res = 137 / 2
        \<and> 0 \<le> overall_score res \<and> overall_score res \<le> 100)"
proof -
  let ?c = "\<lparr>swing_plane_consistency = 68, rotation_quality = 100,
          downswing_alignment = 80, wrist_hinge = 70, weight_transfer = 50, tempo = 0\<rparr>"
  have inr: "scores_in_range ?c" by (simp add: scores_in_range_def)
  have sum: "weighted_sum SCORING_WEIGHTS ?c = 137 / 2"
    by (simp add: weighted_sum_def SCORING_WEIGHTS_def)
  from overall_score_within_bounds[OF example_components inr] obtain res where
    "calculate_swing_score
         [''plane_consistency'' \<mapsto> Num 80, ''angle_error'' \<mapsto> Num 15]
         [''rotation_sequence_score'' \<mapsto> Num 100, ''max_shoulder_rotation'' \<mapsto> Num 90,
          ''max_hip_rotation'' \<mapsto> Num 45]
         [''weight_transfer_score'' \<mapsto> Num 50]
         [''wrist_hinge_score'' \<mapsto> Num 70]
         Map.empty = Inr res"
    and "overall_score res = py_round2 (weighted_sum SCORING_WEIGHTS ?c)"
    and "0 \<le> overall_score res" and "overall_score res \<le> 100"
    by blast
  with inr show ?thesis by (auto simp: sum example_rounding)
qed

section \<open>Properties of the error detector\<close>

lemma collect_const:
  "\<forall>x \<in> set xs. f x = Inr c \<Longrightarrow> collect f xs = Inr (replicate (length xs) c)"
  by (induction xs) simp_all

lemma in_py_range: "i \<in> set (py_range a b) \<longleftrightarrow> a \<le> i \<and> i < b"
  by (auto simp: py_range_def)

lemma py_get_missing:
  "\<forall>f \<in> set ls. f = None \<Longrightarrow> 0 \<le> i \<Longrightarrow> i < int (length ls) \<Longrightarrow> py_get ls i = Inr None"
  by (simp add: py_get_def)

lemma dict_get_nonneg:
  "\<forall>k v. kp k = Some v \<longrightarrow> 0 \<le> v \<Longrightarrow> 0 \<le> dflt \<Longrightarrow> 0 \<le> dict_get kp key (dflt::int)"
  by (auto simp: dict_get_def split: option.splits)

lemma frames_in_window_missing:
  assumes "\<forall>f \<in> set ls. f = None" and "0 \<le> a"
    and "g (None :: frame option) = Inr c"
  shows "collect (\<lambda>i. and_then (py_get ls i) g) (py_range a (min b (int (length ls))))
           = Inr (replicate (length (py_range a (min b (int (length ls))))) c)"
proof (rule collect_const, rule ballI)
  fix i assume "i \<in> set (py_range a (min b (int (length ls))))"
  then have "0 \<le> i" "i < int (length ls)" using assms(2) by (auto simp: in_py_range)
  from py_get_missing[OF assms(1) this] assms(3)
  show "and_then (py_get ls i) g = Inr c" by simp
qed

lemma rotation_all_missing:
  assumes "\<forall>f \<in> set ls. f = None" and "\<forall>k v. kp k = Some v \<longrightarrow> 0 \<le> v"
  shows "calculate_rotation_metrics ls kp = Inr rotation_defaults"
proof -
  have a: "0 \<le> dict_get kp ''address'' 0"
    using assms(2) by (rule dict_get_nonneg) simp
  show ?thesis
  proof (cases "dict_get kp ''address'' 0 \<ge> int (length ls)")
    case True
    then show ?thesis by (simp add: calculate_rotation_metrics_def)
  next
    case False
    with a py_get_missing[OF assms(1), of "dict_get kp ''address'' 0"]
    have "py_get ls (dict_get kp ''address'' 0) = Inr None" by simp
    with False show ?thesis by (simp add: calculate_rotation_metrics_def)
  qed
qed

lemma weight_results_constant:
  "get_num (weight_results weight_defaults (replicate n c)) ''max_weight_shift'' 0 = Inr 0
   \<and> get_num (weight_results weight_defaults (replicate n c)) ''weight_transfer_score'' 0
       = Inr 0"
proof (cases n)
  case 0
  then show ?thesis by (simp add: weight_results_def weight_defaults_def get_num_def)
next
  case (Suc m)
  then have "set (replicate n c) = {c}" by auto
  then have "Max (set (replicate n c)) - Min (set (replicate n c)) = 0" by simp
  moreover have "replicate n c \<noteq> []" using Suc by simp
  ultimately show ?thesis
    by (simp add: weight_results_def get_num_def weight_shift_threshold_def Let_def)
qed

lemma weight_all_missing:
  assumes "\<forall>f \<in> set ls. f = None" and "\<forall>k v. kp k = Some v \<longrightarrow> 0 \<le> v"
  shows "\<exists>n. calculate_weight_transfer ls kp
               = Inr (weight_results weight_defaults (replicate n 0.5))"
proof -
  have a: "0 \<le> dict_get kp ''address'' 0"
    using assms(2) by (rule dict_get_nonneg) simp
  have "frame_weight_ratio None = Inr 0.5" by (simp add: frame_weight_ratio_def)
  from frames_in_window_missing[where g = frame_weight_ratio, OF assms(1) a this]
  have c: "collect (\<lambda>i. and_then (py_get ls i) frame_weight_ratio)
             (py_range (dict_get kp ''address'' 0)
                (min (dict_get kp ''finish'' (int (length ls) - 1) + 1) (int (length ls))))
           = Inr (replicate
               (length (py_range (dict_get kp ''address'' 0)
                  (min (dict_get kp ''finish'' (int (length ls) - 1) + 1)
                     (int (length ls))))) 0.5)"
    .
  show ?thesis
    unfolding calculate_weight_transfer_def Let_def c and_then_Inr by (rule exI) (rule refl)
qed

lemma early_extension_all_missing:
  assumes "\<forall>f \<in> set ls. f = None" and "\<forall>k v. kp k = Some v \<longrightarrow> 0 \<le> v"
  shows "check_early_extension ls kp = Inr False"
proof -
  have t: "0 \<le> dict_get kp ''top'' 0"
    using assms(2) by (rule dict_get_nonneg) simp
  show ?thesis
  proof (cases "dict_get kp ''top'' 0 \<ge> int (length ls)
                 \<or> dict_get kp ''impact'' (int (length ls) - 1) \<ge> int (length ls)")
    case True
    then show ?thesis by (auto simp: check_early_extension_def Let_def)
  next
    case False
    with t py_get_missing[OF assms(1), of "dict_get kp ''top'' 0"]
    have "py_get ls (dict_get kp ''top'' 0) = Inr None" by simp
    with False show ?thesis by (simp add: check_early_extension_def Let_def)
  qed
qed

lemma over_the_top_all_missing:
  assumes "\<forall>f \<in> set ls. f = None" and "\<forall>k v. kp k = Some v \<longrightarrow> 0 \<le> v"
  shows "check_over_the_top ls kp = Inr False"
proof -
  have t: "0 \<le> dict_get kp ''top'' 0"
    using assms(2) by (rule dict_get_nonneg) simp
  have "wrist_offset None = Inr []" by (simp add: wrist_offset_def)
  from frames_in_window_missing[where g = wrist_offset, OF assms(1) t this]
  have c: "collect (\<lambda>i. and_then (py_get ls i) wrist_offset)
             (py_range (dict_get kp ''top'' 0)
                (min (dict_get kp ''impact'' (int (length ls) - 1) + 1) (int (length ls))))
           = Inr (replicate
               (length (py_range (dict_get kp ''top'' 0)
                  (min (dict_get kp ''impact'' (int (length ls) - 1) + 1)
                     (int (length ls))))) [])"
    .
  show ?thesis
    unfolding check_over_the_top_def Let_def c and_then_Inr by simp
qed

lemma detect_on_zero_metrics:
  assumes "check_early_extension ls kp = Inr False"
    and "check_over_the_top ls kp = Inr False"
    and "get_num wm ''max_weight_shift'' 0 = Inr 0"
    and "get_num rm ''rotation_sequence_score'' 0 = Inr 0"
    and "get_num wm ''weight_transfer_score'' 0 = Inr 0"
  shows "detect_common_errors ls kp rm wm = Inr [''reverse_pivot'', ''flat_shoulder'', ''sway'']"
  using assms by (simp add: detect_common_errors_def weight_shift_threshold_def)

lemma detect_without_landmark_errors:
  assumes "check_early_extension ls kp = Inr False"
    and "check_over_the_top ls kp = Inr False"
    and "detect_common_errors ls kp rm wm = Inr errs"
  shows "''early_extension'' \<notin> set errs \<and> ''over_the_top'' \<notin> set errs"
proof -
  from assms obtain a b c where
    "errs = (if a then [''reverse_pivot''] else [])
            @ (if b then [''flat_shoulder''] else [])
            @ (if c then [''sway''] else [])"
    by (auto simp: detect_common_errors_def and_then_def split: sum.splits)
  then show ?thesis by simp
qed

text \<open>
  Claim C2, as stated, fails: for three missing frames and the key positions the
  identifier returns for them, the rotation and weight-transfer metrics hold their zero
  values, and \<open>detect_common_errors\<close> reports reverse_pivot, flat_shoulder and sway.
\<close>

theorem zero_metrics_trigger_counterexample:
  "calculate_rotation_metrics [None, None, None]
      [''address'' \<mapsto> 0, ''top'' \<mapsto> 0, ''impact'' \<mapsto> 2, ''finish'' \<mapsto> 2]
     = Inr rotation_defaults
   \<and> calculate_weight_transfer [None, None, None]
      [''address'' \<mapsto> 0, ''top'' \<mapsto> 0, ''impact'' \<mapsto> 2, ''finish'' \<mapsto> 2]
     = Inr (weight_results weight_defaults [0.5, 0.5, 0.5])
   \<and> get_num (weight_results weight_defaults [0.5, 0.5, 0.5]) ''max_weight_shift'' 0 = Inr 0
   \<and> get_num (weight_results weight_defaults [0.5, 0.5, 0.5]) ''weight_transfer_score'' 0
       = Inr 0
   \<and> get_num rotation_defaults ''rotation_sequence_score'' 0 = Inr 0
   \<and> detect_common_errors [None, None, None]
      [''address'' \<mapsto> 0, ''top'' \<mapsto> 0, ''impact'' \<mapsto> 2, ''finish'' \<mapsto> 2]
      rotation_defaults (weight_results weight_defaults [0.5, 0.5, 0.5])
     = Inr [''reverse_pivot'', ''flat_shoulder'', ''sway'']"
proof -
  let ?ls = "[None, None, None] :: landmarks"
  let ?kp = "[''address'' \<mapsto> 0, ''top'' \<mapsto> 0, ''impact'' \<mapsto> 2, ''finish'' \<mapsto> (2::int)]"
  have u: "[0..2] = [0, 1, 2 :: int]"
    by (simp add: upto.simps)
  have r: "calculate_rotation_metrics ?ls ?kp = Inr rotation_defaults"
    by (simp add: calculate_rotation_metrics_def dict_get_def py_get_def)
  have w: "calculate_weight_transfer ?ls ?kp
             = Inr (weight_results weight_defaults [0.5, 0.5, 0.5])"
    by (simp add: calculate_weight_transfer_def dict_get_def py_get_def py_range_def u
          frame_weight_ratio_def)
  have m: "get_num (weight_results weight_defaults [0.5, 0.5, 0.5]) ''max_weight_shift'' 0
             = Inr 0"
    and t: "get_num (weight_results weight_defaults [0.5, 0.5, 0.5])
              ''weight_transfer_score'' 0 = Inr 0"
    by (simp_all add: weight_results_def get_num_def weight_shift_threshold_def)
  have q: "get_num rotation_defaults ''rotation_sequence_score'' 0 = Inr 0"
    by (simp add: rotation_defaults_def get_num_def)
  have e: "check_early_extension ?ls ?kp = Inr False"
    by (simp add: check_early_extension_def dict_get_def py_get_def)
  have o: "check_over_the_top ?ls ?kp = Inr False"
    by (simp add: check_over_the_top_def dict_get_def py_get_def py_range_def u
          wrist_offset_def)
  from detect_on_zero_metrics[OF e o m q t] r w m t q show ?thesis by simp
qed

lemma py_get_inside:
  "0 \<le> i \<Longrightarrow> i < int (length ls) \<Longrightarrow> py_get ls i = Inr (ls ! nat i)"
  by (simp add: py_get_def)

lemma early_extension_out_of_range:
  "dict_get kp ''top'' 0 \<ge> int (length ls)
     \<or> dict_get kp ''impact'' (int (length ls) - 1) \<ge> int (length ls)
   \<Longrightarrow> check_early_extension ls kp = Inr False"
  by (auto simp: check_early_extension_def Let_def)

lemma early_extension_top_missing:
  assumes "0 \<le> dict_get kp ''top'' 0" and "dict_get kp ''top'' 0 < int (length ls)"
    and "ls ! nat (dict_get kp ''top'' 0) = None"
  shows "check_early_extension ls kp = Inr False"
  using assms py_get_inside[OF assms(1,2)]
  by (simp add: check_early_extension_def Let_def)

lemma early_extension_impact_missing:
  assumes "0 \<le> dict_get kp ''top'' 0" and "dict_get kp ''top'' 0 < int (length ls)"
    and "0 \<le> dict_get kp ''impact'' (int (length ls) - 1)"
    and "dict_get kp ''impact'' (int (length ls) - 1) < int (length ls)"
    and "ls ! nat (dict_get kp ''impact'' (int (length ls) - 1)) = None"
  shows "check_early_extension ls kp = Inr False"
  using assms py_get_inside[OF assms(1,2)] py_get_inside[OF assms(3,4)]
  by (simp add: check_early_extension_def Let_def split: option.splits)

lemma wrist_offset_total:
  "\<exists>xs. wrist_offset f = Inr xs \<and> length xs = (if has_wrist f then 1 else 0)"
  by (cases f)
     (simp_all add: wrist_offset_def has_wrist_def row_def right_wrist_def right_shoulder_def)

lemma collect_concat_count:
  assumes "\<forall>x \<in> set xs. \<exists>y. f x = Inr y \<and> length y = (if P (g x) then 1 else 0)"
  shows "\<exists>ys. collect f xs = Inr ys
           \<and> length (concat ys) = length (filter P (map g xs))"
  using assms
proof (induction xs)
  case Nil
  show ?case by simp
next
  case (Cons x xs)
  then obtain y where y: "f x = Inr y" "length y = (if P (g x) then 1 else 0)" by auto
  from Cons obtain ys where ys: "collect f xs = Inr ys"
    "length (concat ys) = length (filter P (map g xs))" by auto
  from y ys show ?case by simp
qed

lemma over_the_top_out_of_range:
  "dict_get kp ''top'' 0 \<ge> int (length ls)
     \<or> dict_get kp ''impact'' (int (length ls) - 1) \<ge> int (length ls)
   \<Longrightarrow> check_over_the_top ls kp = Inr False"
  by (auto simp: check_over_the_top_def Let_def)

lemma over_the_top_few_frames:
  assumes "0 \<le> dict_get kp ''top'' 0"
    and "length (filter has_wrist (downswing_window ls kp)) \<le> 2"
  shows "check_over_the_top ls kp = Inr False"
proof -
  let ?r = "py_range (dict_get kp ''top'' 0)
              (min (dict_get kp ''impact'' (int (length ls) - 1) + 1) (int (length ls)))"
  have "\<forall>i \<in> set ?r. \<exists>y. and_then (py_get ls i) wrist_offset = Inr y
            \<and> length y = (if has_wrist (ls ! nat i) then 1 else 0)"
  proof
    fix i assume "i \<in> set ?r"
    then have "0 \<le> i" "i < int (length ls)" using assms(1) by (auto simp: in_py_range)
    from py_get_inside[OF this] wrist_offset_total[of "ls ! nat i"]
    show "\<exists>y. and_then (py_get ls i) wrist_offset = Inr y
            \<and> length y = (if has_wrist (ls ! nat i) then 1 else 0)"
      by simp
  qed
  from collect_concat_count[where g = "\<lambda>i. ls ! nat i" and P = has_wrist, OF this]
  obtain ys where c: "collect (\<lambda>i. and_then (py_get ls i) wrist_offset) ?r = Inr ys"
    and n: "length (concat ys) = length (filter has_wrist (map (\<lambda>i. ls ! nat i) ?r))"
    by blast
  from n assms(2) have few: "\<not> 2 < length (concat ys)"
    by (simp add: downswing_window_def)
  show ?thesis
    unfolding check_over_the_top_def Let_def c and_then_Inr using few by simp
qed

lemma detect_explicit:
  assumes "check_early_extension ls kp = Inr early"
    and "check_over_the_top ls kp = Inr over"
    and "get_num wm ''max_weight_shift'' 0 = Inr shift"
    and "get_num rm ''rotation_sequence_score'' 0 = Inr sequence_score"
    and "get_num wm ''weight_transfer_score'' 0 = Inr transfer_score"
  shows "detect_common_errors ls kp rm wm
     = Inr ((if early then [''early_extension''] else [])
            @ (if over then [''over_the_top''] else [])
            @ (if shift < 0.075 then [''reverse_pivot''] else [])
            @ (if sequence_score < 50 then [''flat_shoulder''] else [])
            @ (if transfer_score < 60 then [''sway''] else []))"
  using assms by (simp add: detect_common_errors_def weight_shift_threshold_def)


text \<open>
  Claim C2, amended. The two predicates that read landmarks fail closed, without raising,
  when the frames they require are missing: early_extension is not triggered when the top
  or impact index lies beyond the sequence, or the top frame or the impact frame is the
  missing marker; over_the_top is not triggered when the top or impact index lies beyond
  the sequence, or fewer than three frames of the top-to-impact window are present with a
  wrist landmark (indices being non-negative). The other three predicates are threshold
  tests on the metric values, read with default 0: reverse_pivot for a weight shift below
  0.075, flat_shoulder for a sequence score below 50, sway for a transfer score below 60.
  For a sequence whose frames are all missing the analyzer returns zero-valued metrics,
  and on these all three are triggered: the list returned is reverse_pivot,
  flat_shoulder, sway.
\<close>

theorem missing_frames_error_predicates:
  fixes ls :: landmarks and kp :: "string \<rightharpoonup> int"
  defines "top_frame \<equiv> dict_get kp ''top'' 0"
    and "impact_frame \<equiv> dict_get kp ''impact'' (int (length ls) - 1)"
  shows "(top_frame \<ge> int (length ls) \<or> impact_frame \<ge> int (length ls) \<longrightarrow>
            check_early_extension ls kp = Inr False
            \<and> check_over_the_top ls kp = Inr False)
    \<and> (0 \<le> top_frame \<and> top_frame < int (length ls) \<and> ls ! nat top_frame = None \<longrightarrow>
            check_early_extension ls kp = Inr False)
    \<and> (0 \<le> top_frame \<and> top_frame < int (length ls)
         \<and> 0 \<le> impact_frame \<and> impact_frame < int (length ls)
         \<and> ls ! nat impact_frame = None \<longrightarrow>
            check_early_extension ls kp = Inr False)
    \<and> (0 \<le> top_frame \<and> length (filter has_wrist (downswing_window ls kp)) \<le> 2 \<longrightarrow>
            check_over_the_top ls kp = Inr False)
    \<and> (\<forall>rm wm early over shift sequence_score transfer_score.
          check_early_extension ls kp = Inr early
          \<and> check_over_the_top ls kp = Inr over
          \<and> get_num wm ''max_weight_shift'' 0 = Inr shift
          \<and> get_num rm ''rotation_sequence_score'' 0 = Inr sequence_score
          \<and> get_num wm ''weight_transfer_score'' 0 = Inr transfer_score \<longrightarrow>
          detect_common_errors ls kp rm wm
            = Inr ((if early then [''early_extension''] else [])
                   @ (if over then [''over_the_top''] else [])
                   @ (if shift < 0.075 then [''reverse_pivot''] else [])
                   @ (if sequence_score < 50 then [''flat_shoulder''] else [])
                   @ (if transfer_score < 60 then [''sway''] else [])))
    \<and> ((\<forall>f \<in> set ls. f = None) \<and> (\<forall>k v. kp k = Some v \<longrightarrow> 0 \<le> v) \<longrightarrow>
          check_early_extension ls kp = Inr False
          \<and> check_over_the_top ls kp = Inr False
          \<and> calculate_rotation_metrics ls kp = Inr rotation_defaults
          \<and> get_num rotation_defaults ''rotation_sequence_score'' 0 = Inr 0
          \<and> (\<exists>wm. calculate_weight_transfer ls kp = Inr wm
                \<and> get_num wm ''max_weight_shift'' 0 = Inr 0
                \<and> get_num wm ''weight_transfer_score'' 0 = Inr 0
                \<and> detect_common_errors ls kp rotation_defaults wm
                    = Inr [''reverse_pivot'', ''flat_shoulder'', ''sway'']))"
proof (intro conjI impI allI)
  assume "top_frame \<ge> int (length ls) \<or> impact_frame \<ge> int (length ls)"
  then show "check_early_extension ls kp = Inr False"
    and "check_over_the_top ls kp = Inr False"
    unfolding top_frame_def impact_frame_def
    by (simp_all add: early_extension_out_of_range over_the_top_out_of_range)
next
  assume "0 \<le> top_frame \<and> top_frame < int (length ls) \<and> ls ! nat top_frame = None"
  then show "check_early_extension ls kp = Inr False"
    unfolding top_frame_def by (simp add: early_extension_top_missing)
next
  assume "0 \<le> top_frame \<and> top_frame < int (length ls)
         \<and> 0 \<le> impact_frame \<and> impact_frame < int (length ls)
         \<and> ls ! nat impact_frame = None"
  then show "check_early_extension ls kp = Inr False"
    unfolding top_frame_def impact_frame_def by (simp add: early_extension_impact_missing)
next
  assume "0 \<le> top_frame \<and> length (filter has_wrist (downswing_window ls kp)) \<le> 2"
  then show "check_over_the_top ls kp = Inr False"
    unfolding top_frame_def by (simp add: over_the_top_few_frames)
next
  fix rm wm early over shift sequence_score transfer_score
  assume "check_early_extension ls kp = Inr early
          \<and> check_over_the_top ls kp = Inr over
          \<and> get_num wm ''max_weight_shift'' 0 = Inr shift
          \<and> get_num rm ''rotation_sequence_score'' 0 = Inr sequence_score
          \<and> get_num wm ''weight_transfer_score'' 0 = Inr transfer_score"
  then show "detect_common_errors ls kp rm wm
            = Inr ((if early then [''early_extension''] else [])
                   @ (if over then [''over_the_top''] else [])
                   @ (if shift < 0.075 then [''reverse_pivot''] else [])
                   @ (if sequence_score < 50 then [''flat_shoulder''] else [])
                   @ (if transfer_score < 60 then [''sway''] else []))"
    by (intro detect_explicit) simp_all
next
  assume a: "(\<forall>f \<in> set ls. f = None) \<and> (\<forall>k v. kp k = Some v \<longrightarrow> 0 \<le> v)"
  then have m: "\<forall>f \<in> set ls. f = None" and k: "\<forall>k v. kp k = Some v \<longrightarrow> 0 \<le> v"
    by simp_all
  note e = early_extension_all_missing[OF m k]
  note o = over_the_top_all_missing[OF m k]
  show "check_early_extension ls kp = Inr False" by (rule e)
  show "check_over_the_top ls kp = Inr False" by (rule o)
  show "calculate_rotation_metrics ls kp = Inr rotation_defaults"
    by (rule rotation_all_missing[OF m k])
  show q: "get_num rotation_defaults ''rotation_sequence_score'' 0 = Inr 0"
    by (simp add: rotation_defaults_def get_num_def)
  from weight_all_missing[OF m k] obtain n where
    w: "calculate_weight_transfer ls kp
          = Inr (weight_results weight_defaults (replicate n 0.5))" by blast
  from weight_results_constant[of n "0.5"]
  have s: "get_num (weight_results weight_defaults (replicate n 0.5)) ''max_weight_shift'' 0
             = Inr 0"
    and t: "get_num (weight_results weight_defaults (replicate n 0.5))
              ''weight_transfer_score'' 0 = Inr 0"
    by simp_all
  from detect_on_zero_metrics[OF e o s q t] w s t
  show "\<exists>wm. calculate_weight_transfer ls kp = Inr wm
                \<and> get_num wm ''max_weight_shift'' 0 = Inr 0
                \<and> get_num wm ''weight_transfer_score'' 0 = Inr 0
                \<and> detect_common_errors ls kp rotation_defaults wm
                    = Inr [''reverse_pivot'', ''flat_shoulder'', ''sway'']"
    by blast
qed


theorem missing_frames_error_predicates_witness:
  "check_early_extension
      [Some (replicate 33 (0, 0, 0)), None, Some (replicate 33 (0, 0, 0))]
      [''address'' \<mapsto> 0, ''top'' \<mapsto> 1, ''impact'' \<mapsto> 2, ''finish'' \<mapsto> 2] = Inr False
   \<and> check_over_the_top
      [Some (replicate 33 (0, 0, 0)), None, Some (replicate 33 (0, 0, 0))]
      [''address'' \<mapsto> 0, ''top'' \<mapsto> 1, ''impact'' \<mapsto> 2, ''finish'' \<mapsto> 2] = Inr False
   \<and> detect_common_errors
      [Some (replicate 33 (0, 0, 0)), None, Some (replicate 33 (0, 0, 0))]
      [''address'' \<mapsto> 0, ''top'' \<mapsto> 1, ''impact'' \<mapsto> 2, ''finish'' \<mapsto> 2]
      [''rotation_sequence_score'' \<mapsto> Num 80]
      [''max_weight_shift'' \<mapsto> Num 0.05, ''weight_transfer_score'' \<mapsto> Num 70]
     = Inr [''reverse_pivot'']
   \<and> calculate_rotation_metrics [None, None, None]
      [''address'' \<mapsto> 0, ''top'' \<mapsto> 0, ''impact'' \<mapsto> 2, ''finish'' \<mapsto> 2]
     = Inr rotation_defaults
   \<and> (\<exists>wm. calculate_weight_transfer [None, None, None]
          [''address'' \<mapsto> 0, ''top'' \<mapsto> 0, ''impact'' \<mapsto> 2, ''finish'' \<mapsto> 2] = Inr wm
        \<and> detect_common_errors [None, None, None]
          [''address'' \<mapsto> 0, ''top'' \<mapsto> 0, ''impact'' \<mapsto> 2, ''finish'' \<mapsto> 2]
          rotation_defaults wm
          = Inr [''reverse_pivot'', ''flat_shoulder'', ''sway''])"
proof -
  let ?ls = "[Some (replicate 33 (0, 0, 0)), None, Some (replicate 33 (0, 0, 0))] :: landmarks"
  let ?kp = "[''address'' \<mapsto> 0, ''top'' \<mapsto> 1, ''impact'' \<mapsto> 2, ''finish'' \<mapsto> (2::int)]"
  let ?rm = "[''rotation_sequence_score'' \<mapsto> Num 80] :: metrics"
  let ?wm = "[''max_weight_shift'' \<mapsto> Num 0.05, ''weight_transfer_score'' \<mapsto> Num 70] :: metrics"
  note inst = missing_frames_error_predicates[where ls = ?ls and kp = ?kp]
  have top: "dict_get ?kp ''top'' 0 = 1"
    and impact: "dict_get ?kp ''impact'' (int (length ?ls) - 1) = 2"
    by (simp_all add: dict_get_def)
  have top_missing: "0 \<le> dict_get ?kp ''top'' 0 \<and> dict_get ?kp ''top'' 0 < int (length ?ls)
      \<and> ?ls ! nat (dict_get ?kp ''top'' 0) = None"
    by (simp add: top)
  have u: "[1..2] = [1, 2 :: int]" by (simp add: upto.simps)
  have window: "downswing_window ?ls ?kp = [None, Some (replicate 33 (0, 0, 0))]"
    by (simp add: downswing_window_def dict_get_def py_range_def u)
  have few: "0 \<le> dict_get ?kp ''top'' 0
      \<and> length (filter has_wrist (downswing_window ?ls ?kp)) \<le> 2"
    by (simp add: top window)
  from inst top_missing have e: "check_early_extension ?ls ?kp = Inr False" by blast
  from inst few have o: "check_over_the_top ?ls ?kp = Inr False" by blast
  have nums: "get_num ?wm ''max_weight_shift'' 0 = Inr 0.05
      \<and> get_num ?rm ''rotation_sequence_score'' 0 = Inr 80
      \<and> get_num ?wm ''weight_transfer_score'' 0 = Inr 70"
    by (simp add: get_num_def)
  from inst e o nums
  have "detect_common_errors ?ls ?kp ?rm ?wm
            = Inr ((if False then [''early_extension''] else [])
                   @ (if False then [''over_the_top''] else [])
                   @ (if (0.05::real) < 0.075 then [''reverse_pivot''] else [])
                   @ (if (80::real) < 50 then [''flat_shoulder''] else [])
                   @ (if (70::real) < 60 then [''sway''] else []))"
    by blast
  then have d: "detect_common_errors ?ls ?kp ?rm ?wm = Inr [''reverse_pivot'']" by simp
  let ?ms = "[None, None, None] :: landmarks"
  let ?kq = "[''address'' \<mapsto> 0, ''top'' \<mapsto> 0, ''impact'' \<mapsto> 2, ''finish'' \<mapsto> (2::int)]"
  have missing: "\<forall>f \<in> set ?ms. f = None" by simp
  have nonneg: "\<forall>k v. ?kq k = Some v \<longrightarrow> 0 \<le> v" by (auto split: if_splits)
  from missing_frames_error_predicates[where ls = ?ms and kp = ?kq] missing nonneg
  have "calculate_rotation_metrics ?ms ?kq = Inr rotation_defaults
     \<and> (\<exists>wm. calculate_weight_transfer ?ms ?kq = Inr wm
          \<and> detect_common_errors ?ms ?kq rotation_defaults wm
              = Inr [''reverse_pivot'', ''flat_shoulder'', ''sway''])"
    by blast
  with e o d show ?thesis by blast
qed

section \<open>Properties of the rotation angle\<close>

lemma sin_lower_bound: "x - x\<^sup>2 / 2 \<le> sin (x::real)"
proof -
  have "\<bar>sin x - (\<Sum>m<2. sin_coeff m * x ^ m)\<bar> \<le> inverse (fact 2) * \<bar>x\<bar> ^ 2"
    by (rule Maclaurin_sin_bound)
  moreover have "(\<Sum>m<2. sin_coeff m * x ^ m) = x"
    by (simp add: sin_coeff_def eval_nat_numeral)
  ultimately have "\<bar>sin x - x\<bar> \<le> x\<^sup>2 / 2" by (simp add: fact_numeral)
  then show ?thesis by linarith
qed

lemma norm2_rotate: "norm2 (rotate_ccw t v) = norm2 v"
proof -
  have "(fst v * cos t - snd v * sin t)\<^sup>2 + (fst v * sin t + snd v * cos t)\<^sup>2
        = ((fst v)\<^sup>2 + (snd v)\<^sup>2) * ((sin t)\<^sup>2 + (cos t)\<^sup>2)"
    by algebra
  then show ?thesis by (simp add: norm2_def rotate_ccw_def)
qed

lemma norm2_pos: "v \<noteq> (0, 0) \<Longrightarrow> 0 < norm2 v"
  by (cases v) (auto simp: norm2_def sum_power2_gt_zero_iff)

lemma norm2_nonneg: "0 \<le> norm2 v"
  by (simp add: norm2_def)

text \<open>The dot and cross product computed by the code for a turned reference vector.\<close>

lemma dot_rotate:
  "dot2 (vdiv2 v c) (vdiv2 (rotate_ccw t v) c) = (norm2 v)\<^sup>2 * cos t / c\<^sup>2"
proof -
  have "(norm2 v)\<^sup>2 = (fst v)\<^sup>2 + (snd v)\<^sup>2" by (simp add: norm2_def)
  then show ?thesis
    by (simp add: dot2_def vdiv2_def rotate_ccw_def power2_eq_square algebra_simps
          add_divide_distrib diff_divide_distrib)
qed

lemma cross_rotate:
  "fst (vdiv2 v c) * snd (vdiv2 (rotate_ccw t v) c)
     - snd (vdiv2 v c) * fst (vdiv2 (rotate_ccw t v) c)
   = (norm2 v)\<^sup>2 * sin t / c\<^sup>2"
proof -
  have "(norm2 v)\<^sup>2 = (fst v)\<^sup>2 + (snd v)\<^sup>2" by (simp add: norm2_def)
  then show ?thesis
    by (simp add: vdiv2_def rotate_ccw_def power2_eq_square algebra_simps
          add_divide_distrib diff_divide_distrib)
qed

lemma rotation_angle_rotate:
  "calculate_rotation_angle v (rotate_ccw t v)
   = (let c = norm2 v + 0.000001;
          angle = degrees (arccos (clip ((norm2 v)\<^sup>2 * cos t / c\<^sup>2) (-1) 1))
      in if (norm2 v)\<^sup>2 * sin t / c\<^sup>2 < 0 then - angle else angle)"
  unfolding calculate_rotation_angle_def Let_def norm2_rotate dot_rotate cross_rotate ..

lemma clip_range: "- 1 \<le> clip x (-1) 1 \<and> clip x (-1) 1 \<le> 1"
  by (simp add: clip_def)

lemma clip_id: "- 1 \<le> x \<Longrightarrow> x \<le> 1 \<Longrightarrow> clip x (-1) 1 = x"
  by (simp add: clip_def)

lemma degrees_pos: "0 < r \<Longrightarrow> 0 < degrees r"
  by (simp add: degrees_def)

lemma turned_angle_pos:
  assumes "v \<noteq> (0, 0)"
  shows "0 < degrees (arccos (clip ((norm2 v)\<^sup>2 * cos t / (norm2 v + 0.000001)\<^sup>2) (-1) 1))"
proof -
  let ?n = "norm2 v"
  let ?d = "?n\<^sup>2 * cos t / (?n + 0.000001)\<^sup>2"
  from norm2_pos[OF assms] have n: "0 < ?n" .
  then have "?n\<^sup>2 < (?n + 0.000001)\<^sup>2"
    by (intro power_strict_mono) simp_all
  moreover have "?n\<^sup>2 * cos t \<le> ?n\<^sup>2" by (simp add: mult_left_le)
  ultimately have "?n\<^sup>2 * cos t < (?n + 0.000001)\<^sup>2" by linarith
  moreover have "0 < (?n + 0.000001)\<^sup>2" using n by simp
  ultimately have "?d < 1" by (simp add: divide_less_eq)
  then have lt: "clip ?d (-1) 1 < 1" by (simp add: clip_def)
  from clip_range[of ?d] have rng: "clip ?d (-1) 1 \<in> {-1..1}" by simp
  from arccos_eq_0_iff[OF rng] lt have "arccos (clip ?d (-1) 1) \<noteq> 0" by simp
  moreover from clip_range[of ?d] have "0 \<le> arccos (clip ?d (-1) 1)"
    by (intro arccos_lbound) simp_all
  ultimately have "0 < arccos (clip ?d (-1) 1)" by simp
  then show ?thesis by (rule degrees_pos)
qed

lemma angle_sign_ccw:
  assumes "v \<noteq> (0, 0)" and "0 < t" and "t < pi"
  shows "0 < calculate_rotation_angle v (rotate_ccw t v)"
proof -
  from norm2_pos[OF assms(1)] have n: "0 < norm2 v" .
  have "0 < sin t" using assms(2,3) by (rule sin_gt_zero)
  with n have "0 \<le> (norm2 v)\<^sup>2 * sin t / (norm2 v + 0.000001)\<^sup>2" by simp
  then have "\<not> (norm2 v)\<^sup>2 * sin t / (norm2 v + 0.000001)\<^sup>2 < 0" by simp
  with turned_angle_pos[OF assms(1), of t] show ?thesis
    by (simp add: rotation_angle_rotate Let_def)
qed

lemma angle_sign_cw:
  assumes "v \<noteq> (0, 0)" and "0 < t" and "t < pi"
  shows "calculate_rotation_angle v (rotate_ccw (- t) v) < 0"
proof -
  from norm2_pos[OF assms(1)] have n: "0 < norm2 v" .
  have "0 < sin t" using assms(2,3) by (rule sin_gt_zero)
  with n have "0 < (norm2 v)\<^sup>2 * sin t / (norm2 v + 0.000001)\<^sup>2" by simp
  then have "(norm2 v)\<^sup>2 * sin (- t) / (norm2 v + 0.000001)\<^sup>2 < 0" by simp
  with turned_angle_pos[OF assms(1), of "- t"] show ?thesis
    by (simp only: rotation_angle_rotate Let_def if_True)
qed

lemma norm2_unit_x: "norm2 (1, 0) = 1"
  by (simp add: norm2_def)

lemma quarter_turn_ccw: "calculate_rotation_angle (1, 0) (rotate_ccw (pi / 2) (1, 0)) = 90"
  by (simp add: rotation_angle_rotate norm2_unit_x Let_def clip_def degrees_def)

lemma quarter_turn_cw:
  "calculate_rotation_angle (1, 0) (rotate_ccw (- (pi / 2)) (1, 0)) = - 90"
  by (simp add: rotation_angle_rotate norm2_unit_x Let_def clip_def degrees_def)

lemma small_angle_gap: "cos (pi / 1800) - sin (pi / 1800) \<le> 999 / 1000"
proof -
  let ?e = "pi / 1800"
  have lo: "1 / 900 \<le> ?e" using pi_ge_two by simp
  have hi: "?e \<le> 1 / 450" using pi_less_4 by simp
  have pos: "0 \<le> ?e" by simp
  have "?e\<^sup>2 = ?e * ?e" by (simp add: power2_eq_square)
  also have "\<dots> \<le> ?e * (1 / 450)" using hi pos by (rule mult_left_mono)
  finally have sq: "?e\<^sup>2 \<le> ?e / 450" by simp
  from sin_lower_bound[of ?e] sq have "?e - ?e / 900 \<le> sin ?e" by linarith
  with lo have "1 / 1000 \<le> sin ?e" by linarith
  moreover have "cos ?e \<le> 1" by simp
  ultimately show ?thesis by linarith
qed

lemma eighth_turn_ccw:
  "45 \<le> calculate_rotation_angle (1, 0) (rotate_ccw (pi / 4) (1, 0))
   \<and> calculate_rotation_angle (1, 0) (rotate_ccw (pi / 4) (1, 0)) \<le> 45.1"
proof -
  define k :: real where "k = 1 / (1 + 0.000001)\<^sup>2"
  define d where "d = cos (pi / 4) * k"
  have k_hi: "k \<le> 1" and k_lo: "999 / 1000 \<le> k" and k_pos: "0 < k"
    by (simp_all add: k_def power2_eq_square)
  have c45: "0 < cos (pi / 4)" by (simp add: cos_45)
  have d_pos: "0 < d" using c45 k_pos by (simp add: d_def)
  have d_le: "d \<le> cos (pi / 4)" using c45 k_hi by (simp add: d_def mult_left_le)
  have d_one: "d \<le> 1" using d_le cos_le_one[of "pi / 4"] by linarith
  have "cos (pi / 4 + pi / 1800)
          = cos (pi / 4) * cos (pi / 1800) - sin (pi / 4) * sin (pi / 1800)"
    by (rule cos_add)
  also have "\<dots> = cos (pi / 4) * (cos (pi / 1800) - sin (pi / 1800))"
    by (simp add: cos_45 sin_45 algebra_simps)
  also have "\<dots> \<le> cos (pi / 4) * (999 / 1000)"
    using small_angle_gap c45 by (intro mult_left_mono) simp_all
  also have "\<dots> \<le> d"
    unfolding d_def using k_lo c45 by (intro mult_left_mono) simp_all
  finally have d_ge: "cos (pi / 4 + pi / 1800) \<le> d" .
  have "arccos (cos (pi / 4)) \<le> arccos d"
    using d_pos d_le by (intro arccos_le_arccos) simp_all
  then have lower: "pi / 4 \<le> arccos d" by (simp add: arccos_cos)
  have "arccos d \<le> arccos (cos (pi / 4 + pi / 1800))"
    using d_ge d_one by (intro arccos_le_arccos) simp_all
  moreover have "arccos (cos (pi / 4 + pi / 1800)) = pi / 4 + pi / 1800"
    by (intro arccos_cos) simp_all
  ultimately have upper: "arccos d \<le> pi / 4 + pi / 1800" by simp
  have deg_lo: "45 \<le> degrees (arccos d)"
    using lower by (simp add: degrees_def field_simps)
  have deg_hi: "degrees (arccos d) \<le> 45.1"
    using upper by (simp add: degrees_def field_simps)
  have "0 < sin (pi / 4)" by (simp add: sin_45)
  with k_pos have "0 < sin (pi / 4) * k" by simp
  then have cross: "\<not> sin (pi / 4) * k < 0" by simp
  have "calculate_rotation_angle (1, 0) (rotate_ccw (pi / 4) (1, 0)) = degrees (arccos d)"
    using cross clip_id[of d] d_pos d_one
    by (simp add: rotation_angle_rotate norm2_unit_x Let_def d_def k_def)
  with deg_lo deg_hi show ?thesis by simp
qed

text \<open>
  Claim C7. Turning a non-zero reference vector counter-clockwise by an angle strictly
  between 0 and 180 degrees (the direction in which the cross product of reference and
  current vector is positive) gives a positive angle, turning it clockwise a negative one.
  With reference vector \<open>(1, 0)\<close>, a turn by exactly 45 degrees counter-clockwise gives an
  angle within 0.1 of +45, a turn by 90 degrees counter-clockwise gives +90 and clockwise
  -90 (within 0.5).
\<close>

theorem rotation_angle_sign_convention:
  "(\<forall>v t. v \<noteq> (0, 0) \<and> 0 < t \<and> t < pi \<longrightarrow>
       0 < calculate_rotation_angle v (rotate_ccw t v)
       \<and> calculate_rotation_angle v (rotate_ccw (- t) v) < 0)
   \<and> \<bar>calculate_rotation_angle (1, 0) (rotate_ccw (pi / 4) (1, 0)) - 45\<bar> \<le> 0.1
   \<and> \<bar>calculate_rotation_angle (1, 0) (rotate_ccw (pi / 2) (1, 0)) - 90\<bar> \<le> 0.5
   \<and> \<bar>calculate_rotation_angle (1, 0) (rotate_ccw (- (pi / 2)) (1, 0)) - (- 90)\<bar> \<le> 0.5"
proof (intro conjI allI impI)
  fix v :: "real \<times> real" and t :: real
  assume a: "v \<noteq> (0, 0) \<and> 0 < t \<and> t < pi"
  then show "0 < calculate_rotation_angle v (rotate_ccw t v)"
    by (simp add: angle_sign_ccw)
  from a show "calculate_rotation_angle v (rotate_ccw (- t) v) < 0"
    by (simp add: angle_sign_cw)
next
  from eighth_turn_ccw
  show "\<bar>calculate_rotation_angle (1, 0) (rotate_ccw (pi / 4) (1, 0)) - 45\<bar> \<le> 0.1"
    by (simp add: abs_le_iff)
next
  show "\<bar>calculate_rotation_angle (1, 0) (rotate_ccw (pi / 2) (1, 0)) - 90\<bar> \<le> 0.5"
    using quarter_turn_ccw by simp
next
  show "\<bar>calculate_rotation_angle (1, 0) (rotate_ccw (- (pi / 2)) (1, 0)) - (- 90)\<bar> \<le> 0.5"
    using quarter_turn_cw by simp
qed

theorem rotation_angle_sign_convention_witness:
  "(1 :: real, 0 :: real) \<noteq> (0, 0) \<and> 0 < pi / 2 \<and> pi / 2 < pi
   \<and> 0 < calculate_rotation_angle (1, 0) (rotate_ccw (pi / 2) (1, 0))
   \<and> calculate_rotation_angle (1, 0) (rotate_ccw (- (pi / 2)) (1, 0)) < 0"
proof -
  have pre: "(1 :: real, 0 :: real) \<noteq> (0, 0) \<and> 0 < pi / 2 \<and> pi / 2 < pi" by simp
  from rotation_angle_sign_convention pre
  have "0 < calculate_rotation_angle (1, 0) (rotate_ccw (pi / 2) (1, 0))
     \<and> calculate_rotation_angle (1, 0) (rotate_ccw (- (pi / 2)) (1, 0)) < 0"
    by blast
  with pre show ?thesis by blast
qed

end
